theory Spec2Isabelle
  imports Complex_Main "HOL-Library.AList" "HOL-Library.Monad_Syntax" "HOL-Library.Log_Nat"
begin

section \<open>A concentrated-liquidity pool engine (src/src/pool.py)\<close>

text \<open>
  The class \<open>Pool\<close> is embedded with explicit state passing: every method takes the
  pool and returns the pool it leaves behind, next to its return value. Python's
  integers are unbounded, so they are \<open>int\<close>; \<open>//\<close> is floor division, which is
  \<open>div\<close> on \<open>int\<close>. Every division of the source is guarded against a zero divisor
  or divides by a positive constant, so no ZeroDivisionError branch exists. The
  exceptions that the fee computation and the constructor can raise, both from the float
  field \<open>feeRate\<close>, are values of the type \<open>error\<close>.
\<close>

datatype error = ValueError | OverflowError

subsection \<open>Double-precision floats\<close>

text \<open>
  A Python float is an IEEE 754 double: a finite value (a rational number), a negative
  zero, an infinity or a NaN. Every arithmetic operation returns the exact result rounded
  to the nearest double, ties to the one with an even significand; \<open>round_to_double\<close>
  is that rounding, with 53 significant bits above \<open>2^-1022\<close>, multiples of \<open>2^-1074\<close>
  below, and the infinities from \<open>2^1024\<close> on.
\<close>

datatype pyfloat = Finite rat | NegZero | PosInf | NegInf | NaN

definition round_half_even :: "rat \<Rightarrow> int" where
  "round_half_even x =
     (let f = \<lfloor>x\<rfloor>; d = x - of_int f
      in if d < 1 / 2 then f
         else if 1 / 2 < d then f + 1
         else if even f then f else f + 1)"

text \<open>For \<open>x > 0\<close>, the exponent \<open>e\<close> with \<open>2^e \<le> x < 2^(e+1)\<close>.\<close>

definition floor_log2 :: "rat \<Rightarrow> int" where
  "floor_log2 x =
     (if 1 \<le> x then bitlen \<lfloor>x\<rfloor> - 1 else - bitlen (\<lceil>1 / x\<rceil> - 1))"

definition round_to_double :: "rat \<Rightarrow> pyfloat" where
  "round_to_double x =
     (if x = 0 then Finite 0
      else
        let e = floor_log2 \<bar>x\<bar>;
            q = max e (- 1022) - 52;
            m = round_half_even (x / 2 powi q);
            y = of_int m * 2 powi q
        in if 2 ^ 1024 \<le> \<bar>y\<bar> then (if 0 < x then PosInf else NegInf)
           else if m = 0 \<and> x < 0 then NegZero
           else Finite y)"

text \<open>
  \<open>float(n)\<close> on an int: the nearest double, or OverflowError beyond the range.
\<close>

definition float_of_int :: "int \<Rightarrow> error + pyfloat" where
  "float_of_int n =
     (case round_to_double (of_int n) of
        PosInf \<Rightarrow> Inl OverflowError
      | NegInf \<Rightarrow> Inl OverflowError
      | f \<Rightarrow> Inr f)"

text \<open>
  \<open>x * c\<close> and \<open>x / c\<close> for a float \<open>x\<close> and a positive int constant \<open>c\<close> that
  converts to a float exactly (here \<open>1_000_000\<close>).
\<close>

definition float_times :: "pyfloat \<Rightarrow> int \<Rightarrow> pyfloat" where
  "float_times x c =
     (case x of
        Finite v \<Rightarrow> round_to_double (v * of_int c)
      | NegZero \<Rightarrow> NegZero | PosInf \<Rightarrow> PosInf | NegInf \<Rightarrow> NegInf | NaN \<Rightarrow> NaN)"

definition float_over :: "pyfloat \<Rightarrow> int \<Rightarrow> pyfloat" where
  "float_over x c =
     (case x of
        Finite v \<Rightarrow> round_to_double (v / of_int c)
      | NegZero \<Rightarrow> NegZero | PosInf \<Rightarrow> PosInf | NegInf \<Rightarrow> NegInf | NaN \<Rightarrow> NaN)"

text \<open>
  \<open>int(round(x))\<close> on a float: the nearest integer, ties to the even one; ValueError
  on a NaN, OverflowError on an infinity.
\<close>

definition py_round :: "pyfloat \<Rightarrow> error + int" where
  "py_round x =
     (case x of
        Finite v \<Rightarrow> Inr (round_half_even v)
      | NegZero \<Rightarrow> Inr 0
      | NaN \<Rightarrow> Inl ValueError
      | _ \<Rightarrow> Inl OverflowError)"

subsection \<open>Data model\<close>

record TickData =
  liquidityNet :: int
  liquidityGross :: int
  feeGrowthOutside0X64 :: int
  feeGrowthOutside1X64 :: int

record ValidationStats =
  totalSwaps :: int
  amountOutMismatches :: int
  feeMismatches :: int
  protocolFeeMismatches :: int
  totalAmountOutDifference :: int
  totalFeeDifference :: int
  totalProtocolFeeDifference :: int
  exactMatches :: int

text \<open>
  \<open>ticks\<close> is a Python dict, which keeps its keys in insertion order: an association
  list, written with \<open>AList.update\<close> (overwrite in place, or append a new key) and
  \<open>AList.delete\<close>, read with \<open>map_of\<close>. \<open>tickBitmap\<close> is a Python set; the pool
  holds its members, and the order in which the runtime enumerates them, which is a
  matter of the set's hash table and not of the pool's fields, is an argument of
  \<open>serialize\<close>, the one place that reads it.
\<close>

record Pool =
  reserveA :: int
  reserveB :: int
  sqrtPriceX64 :: int
  liquidity :: int
  tickCurrent :: int
  feeRatePpm :: int
  tickSpacing :: int
  feeRate :: pyfloat
  protocolFeeShareNumerator :: int
  protocolFeeShareDenominator :: int
  ticks :: "(int \<times> TickData) list"
  tickBitmap :: "int set"
  feeGrowthGlobal0X64 :: int
  feeGrowthGlobal1X64 :: int
  totalSwapFee0 :: int
  totalSwapFee1 :: int
  validationStats :: ValidationStats

record Fees =
  totalFee :: int
  lpFee :: int
  protocolFee :: int

definition Q64 :: int where
  "Q64 = 2 ^ 64"

definition TickData_init :: TickData where
  "TickData_init = \<lparr>liquidityNet = 0, liquidityGross = 0,
     feeGrowthOutside0X64 = 0, feeGrowthOutside1X64 = 0\<rparr>"

definition ValidationStats_init :: ValidationStats where
  "ValidationStats_init = \<lparr>totalSwaps = 0, amountOutMismatches = 0, feeMismatches = 0,
     protocolFeeMismatches = 0, totalAmountOutDifference = 0, totalFeeDifference = 0,
     totalProtocolFeeDifference = 0, exactMatches = 0\<rparr>"

text \<open>
  \<open>Pool.__init__(feeRatePpm, tickSpacing)\<close>: \<open>Pool_init\<close> is the object it fills in,
  with \<open>feeRate = float(feeRatePpm) / 1_000_000\<close>, and \<open>Pool_new\<close> the call itself,
  which raises the OverflowError of \<open>float(feeRatePpm)\<close> when there is one.
\<close>

definition Pool_init :: "int \<Rightarrow> int \<Rightarrow> Pool" where
  "Pool_init ppm spacing =
     \<lparr>reserveA = 0, reserveB = 0, sqrtPriceX64 = 0, liquidity = 0, tickCurrent = 0,
      feeRatePpm = ppm, tickSpacing = spacing,
      feeRate = float_over (round_to_double (of_int ppm)) 1000000,
      protocolFeeShareNumerator = 1, protocolFeeShareDenominator = 5,
      ticks = [], tickBitmap = {},
      feeGrowthGlobal0X64 = 0, feeGrowthGlobal1X64 = 0,
      totalSwapFee0 = 0, totalSwapFee1 = 0,
      validationStats = ValidationStats_init\<rparr>"

definition Pool_new :: "int \<Rightarrow> int \<Rightarrow> error + Pool" where
  "Pool_new ppm spacing =
     (case float_of_int ppm of
        Inl e \<Rightarrow> Inl e
      | Inr _ \<Rightarrow> Inr (Pool_init ppm spacing))"

subsection \<open>Fixed-point primitives\<close>

text \<open>
  \<open>tickToSqrtPrice\<close> and the logarithm of \<open>sqrtPriceToTick\<close> are computed by the
  source in double-precision floating point (\<open>math.sqrt\<close>, \<open>**\<close>, \<open>math.log\<close>).
  The swap engine only calls them, so the embedding takes the two functions as a
  parameter: every general theorem below holds for whatever integers they return.
\<close>

record TickMath =
  tickToSqrtPrice :: "int \<Rightarrow> int"
  floorLogTick :: "int \<Rightarrow> int"

text \<open>
  The same two formulas read in exact real arithmetic. At tick 0 and at the price
  \<open>2^64\<close> the float computation is exact too (\<open>1.0001 ** 0 = 1.0\<close>, \<open>sqrt 1.0 = 1.0\<close>,
  \<open>log 1.0 = 0.0\<close>), and these are the only two values that the concrete evaluations
  of the swap engine below read. The round trip of the two functions is evaluated in
  this reading at tick 60.
\<close>

definition Base :: real where
  "Base = 10001 / 10000"

definition exactMath :: TickMath where
  "exactMath =
     \<lparr>tickToSqrtPrice = (\<lambda>tick. \<lfloor>sqrt (Base powr real_of_int tick) * real_of_int Q64\<rfloor>),
      floorLogTick = (\<lambda>sqrt_price. \<lfloor>(2 * ln (real_of_int sqrt_price / real_of_int Q64)) / ln Base\<rfloor>)\<rparr>"

definition sqrtPriceToTick :: "TickMath \<Rightarrow> int \<Rightarrow> int" where
  "sqrtPriceToTick M sqrt_price =
     (if sqrt_price \<le> 0 then 0 else floorLogTick M sqrt_price)"

definition submod :: "int \<Rightarrow> int \<Rightarrow> int" where
  "submod a b = (let diff = a - b in if diff < 0 then 0 else diff)"

definition mulDivRoundingDown :: "int \<Rightarrow> int \<Rightarrow> int \<Rightarrow> int" where
  "mulDivRoundingDown a b denominator =
     (if denominator = 0 \<or> a = 0 \<or> b = 0 then 0 else (a * b) div denominator)"

subsection \<open>Tick book and liquidity manager\<close>

definition updateTickData :: "Pool \<Rightarrow> int \<Rightarrow> int \<Rightarrow> int \<Rightarrow> Pool" where
  "updateTickData p tick netDelta grossDelta =
     (let ticks1 = (case map_of (ticks p) tick of
                      None \<Rightarrow> AList.update tick TickData_init (ticks p)
                    | Some _ \<Rightarrow> ticks p);
          tickData = (case map_of ticks1 tick of None \<Rightarrow> TickData_init | Some d \<Rightarrow> d);
          tickData1 = tickData\<lparr>liquidityNet := liquidityNet tickData + netDelta,
                               liquidityGross := liquidityGross tickData + grossDelta\<rparr>
      in if liquidityGross tickData1 \<le> 0 \<and> liquidityNet tickData1 = 0
         then p\<lparr>ticks := AList.delete tick ticks1, tickBitmap := tickBitmap p - {tick}\<rparr>
         else p\<lparr>ticks := AList.update tick
                            (if liquidityGross tickData1 < 0
                             then tickData1\<lparr>liquidityGross := 0\<rparr> else tickData1) ticks1,
                 tickBitmap := insert tick (tickBitmap p)\<rparr>)"

definition applyLiquidityDelta :: "Pool \<Rightarrow> int \<Rightarrow> int \<Rightarrow> int \<Rightarrow> Pool" where
  "applyLiquidityDelta p tickLower tickUpper liquidityDelta =
     (if liquidityDelta = 0 then p
      else
        let deltaAbs = (if liquidityDelta \<ge> 0 then liquidityDelta else - liquidityDelta);
            grossDelta = (if liquidityDelta \<ge> 0 then deltaAbs else - deltaAbs);
            p1 = updateTickData p tickLower liquidityDelta grossDelta;
            p2 = updateTickData p1 tickUpper (- liquidityDelta) grossDelta
        in if tickCurrent p2 \<ge> tickLower \<and> tickCurrent p2 < tickUpper
           then (let l = liquidity p2 + liquidityDelta
                 in p2\<lparr>liquidity := (if l < 0 then 0 else l)\<rparr>)
           else p2)"

subsection \<open>Fee engine\<close>

definition zeroFees :: Fees where
  "zeroFees = \<lparr>totalFee = 0, lpFee = 0, protocolFee = 0\<rparr>"

text \<open>
  \<open>calculateFees\<close> reads the float \<open>feeRate\<close> only when \<open>feeRatePpm \<le> 0\<close>, and then
  \<open>int(round(self.feeRate * 1_000_000))\<close> can raise.
\<close>

definition calculateFees :: "Pool \<Rightarrow> int \<Rightarrow> error + Fees" where
  "calculateFees p amountIn =
     (if amountIn \<le> 0 then Inr zeroFees
      else
        case (if feeRatePpm p > 0 then Inr (feeRatePpm p)
              else py_round (float_times (feeRate p) 1000000)) of
          Inl e \<Rightarrow> Inl e
        | Inr ppm \<Rightarrow>
            if ppm \<le> 0 then Inr zeroFees
            else
              let rawFee = (amountIn * ppm + 1000000 - 1) div 1000000
              in if rawFee \<le> 0 then Inr zeroFees
                 else
                   let lpFee0 = (rawFee * 4 + 5 - 1) div 5;
                       lpFee1 = (if lpFee0 < 1 then 1 else lpFee0);
                       protocolFee0 = rawFee - lpFee1;
                       protocolFee1 = (if protocolFee0 < 0 then 0 else protocolFee0)
                   in Inr \<lparr>totalFee = lpFee1 + protocolFee1, lpFee = lpFee1,
                           protocolFee = protocolFee1\<rparr>)"

definition updateFeeGrowth :: "Pool \<Rightarrow> int \<Rightarrow> bool \<Rightarrow> Pool" where
  "updateFeeGrowth p feeAmount zeroForOne =
     (if liquidity p > 0
      then (let feeGrowthDelta = (feeAmount * 2 ^ 64) div liquidity p
            in if zeroForOne
               then p\<lparr>feeGrowthGlobal0X64 := feeGrowthGlobal0X64 p + feeGrowthDelta\<rparr>
               else p\<lparr>feeGrowthGlobal1X64 := feeGrowthGlobal1X64 p + feeGrowthDelta\<rparr>)
      else p)"

definition updateFeeGrowthOutside :: "Pool \<Rightarrow> int \<Rightarrow> bool \<Rightarrow> Pool" where
  "updateFeeGrowthOutside p tick zeroForOne =
     (case map_of (ticks p) tick of
        None \<Rightarrow> p
      | Some tickData \<Rightarrow>
          let globalFeeGrowth = (if zeroForOne then feeGrowthGlobal0X64 p
                                 else feeGrowthGlobal1X64 p)
          in if zeroForOne
             then p\<lparr>ticks := AList.update tick
                      (tickData\<lparr>feeGrowthOutside0X64 := globalFeeGrowth\<rparr>) (ticks p)\<rparr>
             else p\<lparr>ticks := AList.update tick
                      (tickData\<lparr>feeGrowthOutside1X64 := globalFeeGrowth\<rparr>) (ticks p)\<rparr>)"

definition updateTickFeeGrowthForFlashSwap :: "Pool \<Rightarrow> Pool" where
  "updateTickFeeGrowthForFlashSwap p =
     p\<lparr>ticks := map (\<lambda>(tick, tickData).
                   (tick, tickData\<lparr>feeGrowthOutside0X64 := feeGrowthGlobal0X64 p,
                                   feeGrowthOutside1X64 := feeGrowthGlobal1X64 p\<rparr>))
                 (ticks p)\<rparr>"

definition calculateFeeGrowthInside :: "Pool \<Rightarrow> int \<Rightarrow> int \<Rightarrow> int \<Rightarrow> int" where
  "calculateFeeGrowthInside p tickLower tickUpper tokenIndex =
     (let globalFeeGrowth = (if tokenIndex = 0 then feeGrowthGlobal0X64 p
                             else feeGrowthGlobal1X64 p)
      in case map_of (ticks p) tickLower of
           None \<Rightarrow> 0
         | Some tickLowerData \<Rightarrow>
            (case map_of (ticks p) tickUpper of
               None \<Rightarrow> 0
             | Some tickUpperData \<Rightarrow>
                 let feeGrowthOutsideLower =
                       (if tokenIndex = 0 then feeGrowthOutside0X64 tickLowerData
                        else feeGrowthOutside1X64 tickLowerData);
                     feeGrowthOutsideUpper =
                       (if tokenIndex = 0 then feeGrowthOutside0X64 tickUpperData
                        else feeGrowthOutside1X64 tickUpperData)
                 in if tickCurrent p < tickLower
                    then submod feeGrowthOutsideLower feeGrowthOutsideUpper
                    else if tickCurrent p \<ge> tickUpper
                    then submod feeGrowthOutsideUpper feeGrowthOutsideLower
                    else submod (submod globalFeeGrowth feeGrowthOutsideLower)
                                feeGrowthOutsideUpper))"

text \<open>\<open>getFeesAtTick\<close> returns the dict \<open>{"fee0": .., "fee1": ..}\<close>, here a pair.\<close>

definition getFeesAtTick :: "Pool \<Rightarrow> int \<Rightarrow> int \<times> int" where
  "getFeesAtTick p tick =
     (case map_of (ticks p) tick of
        None \<Rightarrow> (0, 0)
      | Some tickData \<Rightarrow>
          let feeGrowthInside0X64 = calculateFeeGrowthInside p tick tick 0;
              feeGrowthInside1X64 = calculateFeeGrowthInside p tick tick 1;
              fee0 = (liquidityGross tickData * feeGrowthInside0X64) div 2 ^ 64;
              fee1 = (liquidityGross tickData * feeGrowthInside1X64) div 2 ^ 64
          in (fee0, fee1))"

subsection \<open>Swap engine\<close>

text \<open>
  \<open>getNextTick\<close> sorts the members of the bitmap below (descending) or above
  (ascending) the current tick and returns the first one, or \<open>None\<close>.
\<close>

definition getNextTick :: "Pool \<Rightarrow> int \<Rightarrow> bool \<Rightarrow> int option" where
  "getNextTick p currentTick zeroForOne =
     (if zeroForOne
      then (case rev (sorted_list_of_set {tick \<in> tickBitmap p. tick < currentTick}) of
              [] \<Rightarrow> None | tick # _ \<Rightarrow> Some tick)
      else (case sorted_list_of_set {tick \<in> tickBitmap p. tick > currentTick} of
              [] \<Rightarrow> None | tick # _ \<Rightarrow> Some tick))"

definition calculateMaxSwapAtPrice :: "TickMath \<Rightarrow> Pool \<Rightarrow> int \<Rightarrow> int \<Rightarrow> bool \<Rightarrow> int" where
  "calculateMaxSwapAtPrice M p currentSqrtPriceX64 nextTick zeroForOne =
     (let nextSqrtPriceX64 = tickToSqrtPrice M nextTick
      in if zeroForOne
         then (let numerator = liquidity p * (currentSqrtPriceX64 - nextSqrtPriceX64) * Q64;
                   denominator = currentSqrtPriceX64 * nextSqrtPriceX64
               in if denominator \<noteq> 0 then numerator div denominator else 0)
         else (let deltaSqrtPrice = nextSqrtPriceX64 - currentSqrtPriceX64
               in if Q64 \<noteq> 0 then (liquidity p * deltaSqrtPrice) div Q64 else 0))"

record SwapResult =
  amountOut :: int
  newSqrtPriceX64 :: int
  newTick :: int

text \<open>\<open>swapAtPrice\<close> returns \<open>(amountOut, newSqrtPriceX64)\<close>.\<close>

definition swapAtPrice :: "Pool \<Rightarrow> int \<Rightarrow> int \<Rightarrow> bool \<Rightarrow> int \<times> int" where
  "swapAtPrice p amountIn sqrtPrice zeroForOne =
     (if zeroForOne
      then (if liquidity p = 0 then (0, sqrtPrice)
            else
              let numerator = liquidity p * sqrtPrice * Q64;
                  denominator = liquidity p * Q64 + amountIn * sqrtPrice;
                  newSqrtPrice = (if denominator = 0 then sqrtPrice
                                  else numerator div denominator);
                  delta = sqrtPrice - newSqrtPrice
              in (mulDivRoundingDown (liquidity p) delta Q64, newSqrtPrice))
      else (if liquidity p = 0 then (0, sqrtPrice)
            else
              let newSqrtPrice = sqrtPrice + (amountIn * Q64) div liquidity p;
                  delta = newSqrtPrice - sqrtPrice;
                  numerator = liquidity p * delta * Q64;
                  denominator = newSqrtPrice * sqrtPrice
              in ((if denominator = 0 then 0 else numerator div denominator),
                  newSqrtPrice)))"

text \<open>
  The \<open>while remainingAmount > 0\<close> loop of \<open>executeCLMMSwap\<close>, over the pool (whose
  liquidity and tick snapshots it writes at each crossing) and the four locals
  \<open>currentSqrtPriceX64\<close>, \<open>currentTick\<close>, \<open>amountOut\<close>, \<open>remainingAmount\<close>.
\<close>

function executeCLMMSwap_loop ::
  "TickMath \<Rightarrow> bool \<Rightarrow> Pool \<Rightarrow> int \<Rightarrow> int \<Rightarrow> int \<Rightarrow> int \<Rightarrow> SwapResult \<times> Pool" where
  "executeCLMMSwap_loop M zeroForOne p currentSqrtPriceX64 currentTick out remainingAmount =
     (if remainingAmount > 0
      then
        (case getNextTick p currentTick zeroForOne of
           None \<Rightarrow>
             (let swapResult = swapAtPrice p remainingAmount currentSqrtPriceX64 zeroForOne
              in (\<lparr>amountOut = out + fst swapResult,
                   newSqrtPriceX64 = snd swapResult,
                   newTick = sqrtPriceToTick M (snd swapResult)\<rparr>, p))
         | Some nextTick \<Rightarrow>
             (let maxAmountAtCurrentPrice =
                    calculateMaxSwapAtPrice M p currentSqrtPriceX64 nextTick zeroForOne
              in if maxAmountAtCurrentPrice \<le> 0
                 then (\<lparr>amountOut = out, newSqrtPriceX64 = currentSqrtPriceX64,
                        newTick = currentTick\<rparr>, p)
                 else if remainingAmount \<le> maxAmountAtCurrentPrice
                 then
                   (let swapResult =
                          swapAtPrice p remainingAmount currentSqrtPriceX64 zeroForOne
                    in (\<lparr>amountOut = out + fst swapResult,
                         newSqrtPriceX64 = snd swapResult,
                         newTick = sqrtPriceToTick M (snd swapResult)\<rparr>, p))
                 else
                   (let swapResult =
                          swapAtPrice p maxAmountAtCurrentPrice currentSqrtPriceX64 zeroForOne;
                        p1 = updateFeeGrowthOutside p nextTick zeroForOne;
                        p2 = (case map_of (ticks p1) nextTick of
                                None \<Rightarrow> p1
                              | Some tickData \<Rightarrow>
                                  let l = (if zeroForOne
                                           then liquidity p1 - liquidityNet tickData
                                           else liquidity p1 + liquidityNet tickData)
                                  in p1\<lparr>liquidity := (if l < 0 then 0 else l)\<rparr>)
                    in executeCLMMSwap_loop M zeroForOne p2
                         (tickToSqrtPrice M nextTick) nextTick
                         (out + fst swapResult)
                         (remainingAmount - maxAmountAtCurrentPrice))))
      else (\<lparr>amountOut = out, newSqrtPriceX64 = currentSqrtPriceX64,
             newTick = currentTick\<rparr>, p))"
  by pat_completeness auto
termination
  by (relation "measure (\<lambda>(M, zeroForOne, p, currentSqrtPriceX64, currentTick, out,
                           remainingAmount). nat remainingAmount)") auto

declare executeCLMMSwap_loop.simps [simp del]

definition executeCLMMSwap :: "TickMath \<Rightarrow> Pool \<Rightarrow> int \<Rightarrow> bool \<Rightarrow> SwapResult \<times> Pool" where
  "executeCLMMSwap M p amountIn zeroForOne =
     executeCLMMSwap_loop M zeroForOne p (sqrtPriceX64 p) (tickCurrent p) 0 amountIn"

text \<open>\<open>applySwapInternal\<close> returns the \<open>amountOut\<close> entry of its dict, and the pool.\<close>

definition applySwapInternal :: "TickMath \<Rightarrow> Pool \<Rightarrow> int \<Rightarrow> bool \<Rightarrow> Fees \<Rightarrow> int \<times> Pool" where
  "applySwapInternal M p amountIn zeroForOne fees =
     (if amountIn \<le> 0 then (0, p)
      else
        let p1 = (if totalFee fees > 0
                  then (if zeroForOne
                        then p\<lparr>totalSwapFee0 := totalSwapFee0 p + totalFee fees\<rparr>
                        else p\<lparr>totalSwapFee1 := totalSwapFee1 p + totalFee fees\<rparr>)
                  else p);
            p2 = (if lpFee fees > 0 then updateFeeGrowth p1 (lpFee fees) zeroForOne else p1);
            amountInAfterFee = (if amountIn > totalFee fees then amountIn - totalFee fees
                                else 0)
        in if amountInAfterFee = 0 then (0, p2)
           else
             (let (result, p3) = executeCLMMSwap M p2 amountInAfterFee zeroForOne
              in (amountOut result,
                  p3\<lparr>sqrtPriceX64 := newSqrtPriceX64 result, tickCurrent := newTick result\<rparr>)))"

text \<open>
  A public operation returns its value, or the exception that \<open>calculateFees\<close> raised,
  together with the pool as the call leaves it.
\<close>

definition applySwap :: "TickMath \<Rightarrow> Pool \<Rightarrow> int \<Rightarrow> bool \<Rightarrow> (error + int) \<times> Pool" where
  "applySwap M p amountIn zeroForOne =
     (case calculateFees p amountIn of
        Inl e \<Rightarrow> (Inl e, p)
      | Inr fees \<Rightarrow>
          (let (out, p1) = applySwapInternal M p amountIn zeroForOne fees
           in (Inr out, p1)))"

text \<open>
  \<open>estimateAmountOut\<close> returns \<open>amountOut\<close> and \<open>feeAmount\<close>; its third entry,
  \<open>priceImpact\<close>, is a float computed from the two and from \<open>price\<close>, and is left out.
\<close>

definition estimateAmountOut ::
  "TickMath \<Rightarrow> Pool \<Rightarrow> int \<Rightarrow> bool \<Rightarrow> (error + int \<times> int) \<times> Pool" where
  "estimateAmountOut M p amountIn zeroForOne =
     (case calculateFees p amountIn of
        Inl e \<Rightarrow> (Inl e, p)
      | Inr fees \<Rightarrow>
          (let amountInAfterFee = (if amountIn > totalFee fees then amountIn - totalFee fees
                                   else 0);
               (result, p1) = (if amountInAfterFee > 0
                               then executeCLMMSwap M p amountInAfterFee zeroForOne
                               else (\<lparr>amountOut = 0, newSqrtPriceX64 = sqrtPriceX64 p,
                                      newTick = tickCurrent p\<rparr>, p))
           in (Inr (amountOut result, lpFee fees), p1)))"

subsection \<open>Flash-swap repay and the validation harness\<close>

definition applyRepayFlashSwap ::
  "Pool \<Rightarrow> int \<Rightarrow> int \<Rightarrow> int \<Rightarrow> int \<Rightarrow> int option \<Rightarrow> int option \<Rightarrow> Pool" where
  "applyRepayFlashSwap p amountXDebt amountYDebt paidX paidY reserveX reserveY =
     (let feeX = (if paidX > amountXDebt then paidX - amountXDebt else 0);
          feeY = (if paidY > amountYDebt then paidY - amountYDebt else 0);
          p1 = (if feeX > 0
                then (let q = updateFeeGrowth p feeX True
                      in q\<lparr>totalSwapFee0 := totalSwapFee0 q + feeX\<rparr>)
                else p);
          p2 = (if feeY > 0
                then (let q = updateFeeGrowth p1 feeY False
                      in q\<lparr>totalSwapFee1 := totalSwapFee1 q + feeY\<rparr>)
                else p1);
          p3 = (case reserveX of None \<Rightarrow> p2 | Some r \<Rightarrow> p2\<lparr>reserveA := r\<rparr>);
          p4 = (case reserveY of None \<Rightarrow> p3 | Some r \<Rightarrow> p3\<lparr>reserveB := r\<rparr>)
      in updateTickFeeGrowthForFlashSwap p4)"

record Validation =
  amountOutMatch :: bool
  feeMatch :: bool
  protocolFeeMatch :: bool
  amountOutDifference :: int
  feeDifference :: int
  protocolFeeDifference :: int
  isExactMatch :: bool

record ValidatedSwap =
  v_amountOut :: int
  v_feeAmount :: int
  v_protocolFee :: int
  v_validation :: Validation

definition applySwapWithValidation ::
  "TickMath \<Rightarrow> Pool \<Rightarrow> int \<Rightarrow> bool \<Rightarrow> int option \<Rightarrow> int option \<Rightarrow> int option
     \<Rightarrow> (error + ValidatedSwap) \<times> Pool" where
  "applySwapWithValidation M p amountIn zeroForOne expectedAmountOut expectedFee
       expectedProtocolFee =
     (let p1 = p\<lparr>validationStats :=
                   (validationStats p)\<lparr>totalSwaps := totalSwaps (validationStats p) + 1\<rparr>\<rparr>
      in case calculateFees p1 amountIn of
           Inl e \<Rightarrow> (Inl e, p1)
         | Inr computedFees \<Rightarrow>
      (let lpFee' = (case expectedFee of Some f \<Rightarrow> f | None \<Rightarrow> lpFee computedFees);
          protocolFee' = (case expectedProtocolFee of Some f \<Rightarrow> f
                          | None \<Rightarrow> protocolFee computedFees);
          totalFee' = lpFee' + protocolFee';
          (out, p2) = applySwapInternal M p1 amountIn zeroForOne
                        \<lparr>totalFee = totalFee', lpFee = lpFee', protocolFee = protocolFee'\<rparr>;
          v0 = \<lparr>amountOutMatch = (case expectedAmountOut of Some e \<Rightarrow> out = e | None \<Rightarrow> True),
                feeMatch = (case expectedFee of Some e \<Rightarrow> lpFee' = e | None \<Rightarrow> True),
                protocolFeeMatch = (case expectedProtocolFee of Some e \<Rightarrow> protocolFee' = e
                                    | None \<Rightarrow> True),
                amountOutDifference = (case expectedAmountOut of Some e \<Rightarrow> out - e
                                       | None \<Rightarrow> 0),
                feeDifference = (case expectedFee of Some e \<Rightarrow> lpFee' - e | None \<Rightarrow> 0),
                protocolFeeDifference = (case expectedProtocolFee of
                                           Some e \<Rightarrow> protocolFee' - e | None \<Rightarrow> 0),
                isExactMatch = True\<rparr>;
          v = v0\<lparr>isExactMatch := amountOutMatch v0 \<and> feeMatch v0 \<and> protocolFeeMatch v0\<rparr>;
          s0 = validationStats p2;
          s1 = (if \<not> amountOutMatch v
                then s0\<lparr>amountOutMismatches := amountOutMismatches s0 + 1,
                        totalAmountOutDifference :=
                          totalAmountOutDifference s0 + amountOutDifference v\<rparr>
                else s0);
          s2 = (if \<not> feeMatch v
                then s1\<lparr>feeMismatches := feeMismatches s1 + 1,
                        totalFeeDifference := totalFeeDifference s1 + feeDifference v\<rparr>
                else s1);
          s3 = (if \<not> protocolFeeMatch v
                then s2\<lparr>protocolFeeMismatches := protocolFeeMismatches s2 + 1,
                        totalProtocolFeeDifference :=
                          totalProtocolFeeDifference s2 + protocolFeeDifference v\<rparr>
                else s2);
          s4 = (if isExactMatch v then s3\<lparr>exactMatches := exactMatches s3 + 1\<rparr> else s3)
      in (Inr \<lparr>v_amountOut = out, v_feeAmount = lpFee', v_protocolFee = protocolFee',
               v_validation = v\<rparr>,
          p2\<lparr>validationStats := s4\<rparr>)))"

subsection \<open>Serializer\<close>

text \<open>
  \<open>serialize\<close> builds a dict and hands it to \<open>json.dumps\<close>; \<open>deserialize\<close> reads the
  dict that \<open>json.loads\<close> returns. The embedding is that dict: the big integers are
  decimal strings (\<open>str\<close> on the way out, \<open>int\<close> on the way in), \<open>tickCurrent\<close>,
  \<open>tickSpacing\<close> and the tick indices are JSON integers, \<open>feeRate\<close> is a JSON number.
  The four keys that \<open>deserialize\<close> reads with \<open>state.get(key, default)\<close> are
  optional. The array \<open>tickBitmap\<close> is \<open>list(self.tickBitmap)\<close>: the members of the
  set in the order in which the runtime enumerates it. That order is the first argument
  of \<open>serialize\<close>; \<open>enumerates\<close> says what the runtime guarantees of it, each member
  once. \<open>deserialize\<close> returns \<open>None\<close> where the source raises (the ValueError of
  \<open>int\<close>, the OverflowError of the constructor).
\<close>

definition digit_char :: "nat \<Rightarrow> char" where
  "digit_char d = char_of (48 + d)"

fun str_nat :: "nat \<Rightarrow> string" where
  "str_nat n = (if n < 10 then [digit_char n]
                else str_nat (n div 10) @ [digit_char (n mod 10)])"

declare str_nat.simps [simp del]

text \<open>Python's \<open>str\<close> on an int.\<close>

definition py_str :: "int \<Rightarrow> string" where
  "py_str i = (if i < 0 then CHR ''-'' # str_nat (nat (- i)) else str_nat (nat i))"

definition digit_val :: "char \<Rightarrow> nat option" where
  "digit_val c = (let k = (of_char c :: nat)
                  in if 48 \<le> k \<and> k \<le> 57 then Some (k - 48) else None)"

fun nat_of_digits :: "nat \<Rightarrow> string \<Rightarrow> nat option" where
  "nat_of_digits acc [] = Some acc"
| "nat_of_digits acc (c # cs) =
     (case digit_val c of None \<Rightarrow> None | Some d \<Rightarrow> nat_of_digits (10 * acc + d) cs)"

text \<open>
  Python's \<open>int\<close> on a string, for an optional sign followed by decimal digits;
  \<open>None\<close> is its ValueError. (Python also accepts surrounding blanks and single
  underscores between digits, which \<open>str\<close> never writes; they are \<open>None\<close> here.)
\<close>

definition py_int :: "string \<Rightarrow> int option" where
  "py_int s =
     (case s of
        [] \<Rightarrow> None
      | c # cs \<Rightarrow>
          if c = CHR ''-'' then (if cs = [] then None
                                 else map_option (\<lambda>n. - int n) (nat_of_digits 0 cs))
          else if c = CHR ''+'' then (if cs = [] then None
                                      else map_option int (nat_of_digits 0 cs))
          else map_option int (nat_of_digits 0 s))"

record TickJson =
  j_tick :: int
  j_liquidityNet :: string
  j_liquidityGross :: string
  j_feeGrowthOutside0X64 :: string
  j_feeGrowthOutside1X64 :: string

record PoolJson =
  j_reserveA :: string
  j_reserveB :: string
  j_sqrtPriceX64 :: string
  j_liquidity :: string
  j_tickCurrent :: int
  j_feeRate :: pyfloat
  j_tickSpacing :: int
  j_feeRatePpm :: string
  j_protocolFeeShareNumerator :: "string option"
  j_protocolFeeShareDenominator :: "string option"
  j_feeGrowthGlobal0X64 :: string
  j_feeGrowthGlobal1X64 :: string
  j_totalSwapFee0 :: "string option"
  j_totalSwapFee1 :: "string option"
  j_ticks :: "TickJson list"
  j_tickBitmap :: "int list"

definition serialize_tick :: "int \<times> TickData \<Rightarrow> TickJson" where
  "serialize_tick e =
     (case e of (tick, data) \<Rightarrow>
        \<lparr>j_tick = tick,
         j_liquidityNet = py_str (liquidityNet data),
         j_liquidityGross = py_str (liquidityGross data),
         j_feeGrowthOutside0X64 = py_str (feeGrowthOutside0X64 data),
         j_feeGrowthOutside1X64 = py_str (feeGrowthOutside1X64 data)\<rparr>)"

definition enumerates :: "int list \<Rightarrow> int set \<Rightarrow> bool" where
  "enumerates order members = (distinct order \<and> set order = members)"

definition serialize :: "int list \<Rightarrow> Pool \<Rightarrow> PoolJson" where
  "serialize bitmapOrder p =
     \<lparr>j_reserveA = py_str (reserveA p),
      j_reserveB = py_str (reserveB p),
      j_sqrtPriceX64 = py_str (sqrtPriceX64 p),
      j_liquidity = py_str (liquidity p),
      j_tickCurrent = tickCurrent p,
      j_feeRate = feeRate p,
      j_tickSpacing = tickSpacing p,
      j_feeRatePpm = py_str (feeRatePpm p),
      j_protocolFeeShareNumerator = Some (py_str (protocolFeeShareNumerator p)),
      j_protocolFeeShareDenominator = Some (py_str (protocolFeeShareDenominator p)),
      j_feeGrowthGlobal0X64 = py_str (feeGrowthGlobal0X64 p),
      j_feeGrowthGlobal1X64 = py_str (feeGrowthGlobal1X64 p),
      j_totalSwapFee0 = Some (py_str (totalSwapFee0 p)),
      j_totalSwapFee1 = Some (py_str (totalSwapFee1 p)),
      j_ticks = map serialize_tick (ticks p),
      j_tickBitmap = bitmapOrder\<rparr>"

text \<open>\<open>int(state.get(key, default))\<close>.\<close>

definition get_int :: "string option \<Rightarrow> int \<Rightarrow> int option" where
  "get_int field dflt = (case field of None \<Rightarrow> Some dflt | Some s \<Rightarrow> py_int s)"

text \<open>The loop \<open>for tickData in state["ticks"]: pool.ticks[tickData["tick"]] = {...}\<close>.\<close>

fun deserialize_ticks :: "TickJson list \<Rightarrow> (int \<times> TickData) list \<Rightarrow> (int \<times> TickData) list option" where
  "deserialize_ticks [] acc = Some acc"
| "deserialize_ticks (tickData # rest) acc =
     do {
       n \<leftarrow> py_int (j_liquidityNet tickData);
       g \<leftarrow> py_int (j_liquidityGross tickData);
       f0 \<leftarrow> py_int (j_feeGrowthOutside0X64 tickData);
       f1 \<leftarrow> py_int (j_feeGrowthOutside1X64 tickData);
       deserialize_ticks rest
         (AList.update (j_tick tickData)
            \<lparr>liquidityNet = n, liquidityGross = g,
             feeGrowthOutside0X64 = f0, feeGrowthOutside1X64 = f1\<rparr> acc)
     }"

definition deserialize :: "PoolJson \<Rightarrow> Pool option" where
  "deserialize state =
     do {
       ppm \<leftarrow> py_int (j_feeRatePpm state);
       pool \<leftarrow> (case Pool_new ppm (j_tickSpacing state) of
                 Inl e \<Rightarrow> None | Inr pool \<Rightarrow> Some pool);
       rA \<leftarrow> py_int (j_reserveA state);
       rB \<leftarrow> py_int (j_reserveB state);
       sp \<leftarrow> py_int (j_sqrtPriceX64 state);
       l \<leftarrow> py_int (j_liquidity state);
       num \<leftarrow> get_int (j_protocolFeeShareNumerator state) 1;
       den \<leftarrow> get_int (j_protocolFeeShareDenominator state) 5;
       g0 \<leftarrow> py_int (j_feeGrowthGlobal0X64 state);
       g1 \<leftarrow> py_int (j_feeGrowthGlobal1X64 state);
       f0 \<leftarrow> get_int (j_totalSwapFee0 state) 0;
       f1 \<leftarrow> get_int (j_totalSwapFee1 state) 0;
       ts \<leftarrow> deserialize_ticks (j_ticks state) [];
       Some (pool\<lparr>reserveA := rA, reserveB := rB, sqrtPriceX64 := sp, liquidity := l,
                  tickCurrent := j_tickCurrent state, feeRate := j_feeRate state,
                  protocolFeeShareNumerator := num, protocolFeeShareDenominator := den,
                  feeGrowthGlobal0X64 := g0, feeGrowthGlobal1X64 := g1,
                  totalSwapFee0 := f0, totalSwapFee1 := f1,
                  ticks := ts, tickBitmap := set (j_tickBitmap state)\<rparr>)
     }"

subsection \<open>Vocabulary of the properties\<close>

text \<open>
  The rate that \<open>calculateFees\<close> works with: \<open>feeRatePpm\<close> when it is positive,
  otherwise the float \<open>feeRate\<close> converted, \<open>int(round(feeRate * 1_000_000))\<close>.
\<close>

definition effectivePpm :: "Pool \<Rightarrow> error + int" where
  "effectivePpm p =
     (if feeRatePpm p > 0 then Inr (feeRatePpm p)
      else py_round (float_times (feeRate p) 1000000))"

text \<open>A float that is zero, negative or minus infinity.\<close>

definition nonpositive :: "pyfloat \<Rightarrow> bool" where
  "nonpositive x =
     (case x of Finite v \<Rightarrow> v \<le> 0 | NegZero \<Rightarrow> True | NegInf \<Rightarrow> True
      | PosInf \<Rightarrow> False | NaN \<Rightarrow> False)"

text \<open>
  What the specification says \<open>updateTick(tick, netDelta, grossDelta)\<close> does to one
  entry of the tick book: create it if absent, add the deltas, delete it if then
  \<open>liquidityGross \<le> 0\<close> and \<open>liquidityNet = 0\<close>, otherwise clamp \<open>liquidityGross\<close> at 0.
\<close>

definition updatedTick :: "TickData option \<Rightarrow> int \<Rightarrow> int \<Rightarrow> TickData option" where
  "updatedTick old netDelta grossDelta =
     (let t = (case old of None \<Rightarrow> TickData_init | Some d \<Rightarrow> d);
          n = liquidityNet t + netDelta;
          g = liquidityGross t + grossDelta
      in if g \<le> 0 \<and> n = 0 then None
         else Some (t\<lparr>liquidityNet := n, liquidityGross := max 0 g\<rparr>))"

text \<open>The entry that \<open>updateTickData\<close> starts from: the stored one, or a fresh zero entry.\<close>

definition tickDataOrInit :: "Pool \<Rightarrow> int \<Rightarrow> TickData" where
  "tickDataOrInit p tick =
     (case map_of (ticks p) tick of None \<Rightarrow> TickData_init | Some d \<Rightarrow> d)"

text \<open>A pool whose current tick 7 lies in a position's range, with active liquidity 1000.\<close>

definition pool_in_range :: Pool where
  "pool_in_range = (Pool_init 100 60)\<lparr>liquidity := 1000, tickCurrent := 7\<rparr>"

text \<open>A tick index is a key of \<open>ticks\<close> if and only if it is in \<open>tickBitmap\<close>.\<close>

definition tickBookConsistent :: "Pool \<Rightarrow> bool" where
  "tickBookConsistent p = (fst ` set (ticks p) = tickBitmap p)"

text \<open>The pool of the test suite's scenario 3: a new pool after \<open>applyLiquidityDelta(5, 10, 1000)\<close>.\<close>

definition pool_5_10 :: Pool where
  "pool_5_10 = applyLiquidityDelta (Pool_init 100 60) 5 10 1000"

text \<open>
  A pool at sqrt price \<open>2 \<cdot> 2^64\<close> (price 4, tick 13863) holding one position of liquidity
  1000 over the ticks \<open>[0, 20000)\<close>.
\<close>

definition pool_crossing :: Pool where
  "pool_crossing =
     applyLiquidityDelta ((Pool_init 100 60)\<lparr>sqrtPriceX64 := 2 ^ 65, tickCurrent := 13863\<rparr>)
       0 20000 1000"

text \<open>A pool at sqrt price \<open>2^64\<close> with active liquidity 1000 and no initialized tick.\<close>

definition pool_no_ticks :: Pool where
  "pool_no_ticks = (Pool_init 100 60)\<lparr>sqrtPriceX64 := 2 ^ 64, liquidity := 1000\<rparr>"

text \<open>The pool with its validation counters back at zero, as the constructor sets them.\<close>

definition resetStats :: "Pool \<Rightarrow> Pool" where
  "resetStats p = p\<lparr>validationStats := ValidationStats_init\<rparr>"

text \<open>A new pool after one call of \<open>applySwapWithValidation(0, True)\<close>.\<close>

definition pool_validated :: Pool where
  "pool_validated =
     snd (applySwapWithValidation exactMath (Pool_init 100 60) 0 True None None None)"

section \<open>Properties\<close>

subsection \<open>Evaluating float operations\<close>

lemma pow2_sandwich:
  fixes y :: rat
  assumes "2 ^ a < y" "y \<le> 2 ^ Suc a" "2 ^ b < y" "y \<le> 2 ^ Suc b"
  shows "a = b"
proof -
  have "(2::rat) ^ a < 2 ^ Suc b" using assms by linarith
  then have "a < Suc b" by (simp only: power_strict_increasing_iff one_less_numeral_iff semiring_norm)
  moreover have "(2::rat) ^ b < 2 ^ Suc a" using assms by linarith
  then have "b < Suc a" by (simp only: power_strict_increasing_iff one_less_numeral_iff semiring_norm)
  ultimately show ?thesis by simp
qed

lemma pow2_sandwich':
  fixes y :: rat
  assumes "2 ^ a \<le> y" "y < 2 ^ Suc a" "2 ^ b \<le> y" "y < 2 ^ Suc b"
  shows "a = b"
proof -
  have "(2::rat) ^ a < 2 ^ Suc b" using assms by linarith
  then have "a < Suc b" by (simp only: power_strict_increasing_iff one_less_numeral_iff semiring_norm)
  moreover have "(2::rat) ^ b < 2 ^ Suc a" using assms by linarith
  then have "b < Suc a" by (simp only: power_strict_increasing_iff one_less_numeral_iff semiring_norm)
  ultimately show ?thesis by simp
qed

lemma floor_log2_eqI:
  assumes lo: "2 powi e \<le> x" and hi: "x < 2 powi (e + 1)"
  shows "floor_log2 x = e"
proof (cases "1 \<le> x")
  case True
  define n where "n = \<lfloor>x\<rfloor>"
  define k where "k = bitlen n"
  have n1: "1 \<le> n" using True by (simp add: n_def le_floor_iff)
  then have n0: "0 < n" by simp
  have k1: "1 \<le> k" using n0 by (simp add: k_def bitlen_alt_def)
  have b: "2 ^ nat (k - 1) \<le> n" "n < 2 ^ nat k"
    using bitlen_bounds[OF n0] by (simp_all add: k_def)
  have e0: "0 \<le> e"
  proof (rule ccontr)
    assume "\<not> 0 \<le> e"
    then have "e + 1 \<le> 0" by simp
    then have "(2::rat) powi (e + 1) \<le> 2 powi 0"
      by (intro power_int_increasing) simp_all
    with hi True show False by simp
  qed
  have pe: "(2::rat) powi e = 2 ^ nat e" "(2::rat) powi (e + 1) = 2 ^ Suc (nat e)"
    using e0 by (simp_all add: power_int_def nat_add_distrib)
  have xn: "of_int n \<le> x" "x < of_int n + 1"
    using floor_correct [of x] by (simp_all add: n_def)
  have A: "(2::rat) ^ nat (k - 1) \<le> x"
  proof -
    have "(2::rat) ^ nat (k - 1) = of_int (2 ^ nat (k - 1))" by simp
    also have "\<dots> \<le> of_int n" using b(1) by (simp only: of_int_le_iff)
    finally show ?thesis using xn by linarith
  qed
  have B: "x < (2::rat) ^ Suc (nat (k - 1))"
  proof -
    have "n + 1 \<le> 2 ^ nat k" using b(2) by simp
    then have "of_int (n + 1) \<le> (of_int (2 ^ nat k) :: rat)" by (simp only: of_int_le_iff)
    moreover have "nat k = Suc (nat (k - 1))" using k1 by simp
    ultimately show ?thesis using xn by simp
  qed
  have "nat (k - 1) = nat e"
    using pow2_sandwich'[OF A B] lo hi by (simp add: pe)
  then have "k - 1 = e" using k1 e0 by simp
  with True show ?thesis by (simp add: floor_log2_def n_def k_def)
next
  case False
  then have x1: "x < 1" by simp
  have x0: "0 < x" using lo by (rule less_le_trans[rotated]) simp
  define y where "y = 1 / x"
  define n where "n = \<lceil>y\<rceil>"
  define k where "k = bitlen (n - 1)"
  have y1: "1 < y" using x0 x1 by (simp add: y_def)
  have n2: "2 \<le> n" using y1 by (simp add: n_def le_ceiling_iff)
  then have n0: "0 < n - 1" by simp
  have k1: "1 \<le> k" using n0 by (simp add: k_def bitlen_alt_def)
  have b: "2 ^ nat (k - 1) \<le> n - 1" "n - 1 < 2 ^ nat k"
    using bitlen_bounds[OF n0] by (simp_all add: k_def)
  have yn: "of_int n - 1 < y" "y \<le> of_int n"
    using ceiling_correct [of y] by (simp_all add: n_def)
  have e0: "e < 0"
  proof (rule ccontr)
    assume "\<not> e < 0"
    then have "(2::rat) powi 0 \<le> 2 powi e"
      by (intro power_int_increasing) simp_all
    with lo x1 show False by simp
  qed
  have A: "(2::rat) ^ nat (k - 1) < y"
  proof -
    have "(2::rat) ^ nat (k - 1) = of_int (2 ^ nat (k - 1))" by simp
    also have "\<dots> \<le> of_int (n - 1)" using b(1) by (simp only: of_int_le_iff)
    finally show ?thesis using yn by simp
  qed
  have B: "y \<le> (2::rat) ^ Suc (nat (k - 1))"
  proof -
    have "n \<le> 2 ^ nat k" using b(2) by simp
    then have "of_int n \<le> (of_int (2 ^ nat k) :: rat)" by (simp only: of_int_le_iff)
    moreover have "nat k = Suc (nat (k - 1))" using k1 by simp
    ultimately show ?thesis using yn by simp
  qed
  have pe: "(2::rat) powi (e + 1) = 1 / 2 ^ nat (- e - 1)" "(2::rat) powi e = 1 / 2 ^ nat (- e)"
  proof -
    show "(2::rat) powi e = 1 / 2 ^ nat (- e)"
      using e0 by (simp add: power_int_def power_one_over inverse_eq_divide)
    show "(2::rat) powi (e + 1) = 1 / 2 ^ nat (- e - 1)"
    proof (cases "e = - 1")
      case True
      then show ?thesis by simp
    next
      case False
      with e0 have "e + 1 < 0" by simp
      then show ?thesis
        by (simp add: power_int_def power_one_over inverse_eq_divide algebra_simps)
    qed
  qed
  have C: "(2::rat) ^ nat (- e - 1) < y"
  proof -
    have "x * 2 ^ nat (- e - 1) < 1"
      using hi by (simp add: pe pos_less_divide_eq)
    then show ?thesis
      using x0 by (simp add: y_def pos_less_divide_eq mult.commute)
  qed
  have D: "y \<le> (2::rat) ^ Suc (nat (- e - 1))"
  proof -
    have "1 \<le> x * 2 ^ nat (- e)"
      using lo by (simp add: pe pos_divide_le_eq)
    then have "y \<le> 2 ^ nat (- e)"
      using x0 by (simp add: y_def pos_divide_le_eq mult.commute)
    moreover have "nat (- e) = Suc (nat (- e - 1))"
      using e0 by simp
    ultimately show ?thesis by simp
  qed
  have "nat (k - 1) = nat (- e - 1)"
    by (rule pow2_sandwich [OF A B C D])
  then have "k = - e" using k1 e0 by simp
  with False show ?thesis by (simp add: floor_log2_def n_def k_def y_def)
qed

lemma floor_rat_numeral:
  "\<lfloor>(numeral a :: rat) / numeral b\<rfloor> = numeral a div numeral b"
  "\<lfloor>- ((numeral a :: rat) / numeral b)\<rfloor> = - numeral a div numeral b"
  "\<lfloor>(1 :: rat) / numeral b\<rfloor> = 1 div numeral b"
  "\<lfloor>- ((1 :: rat) / numeral b)\<rfloor> = - 1 div numeral b"
  using floor_divide_of_int_eq [of "numeral a" "numeral b", where ?'a = rat]
        floor_divide_of_int_eq [of "- numeral a" "numeral b", where ?'a = rat]
        floor_divide_of_int_eq [of 1 "numeral b", where ?'a = rat]
        floor_divide_of_int_eq [of "- 1" "numeral b", where ?'a = rat]
  by simp_all

lemmas float_eval = round_to_double_def round_half_even_def Let_def floor_rat_numeral

lemma round_to_double_0: "round_to_double 0 = Finite 0"
  by (simp add: round_to_double_def)

text \<open>\<open>0.5 * 1_000_000\<close> is exactly \<open>500000.0\<close>.\<close>

lemma half_times_million: "float_times (Finite (1 / 2)) 1000000 = Finite 500000"
  by (simp add: float_times_def float_eval floor_log2_eqI [where e = 18])

text \<open>
  The double nearest to \<open>2.5e-6\<close> is \<open>5902958103587057 / 2^71\<close>, a little above
  \<open>2.5e-6\<close>; its product with \<open>1_000_000\<close> rounds to the double \<open>2.5\<close>, and \<open>round(2.5)\<close>
  is 2, where rounding the exact product would give 3.
\<close>

lemma double_rounding_2_5:
  "float_times (Finite (5902958103587057 / 2 ^ 71)) 1000000 = Finite (5 / 2)"
  "py_round (Finite (5 / 2)) = Inr 2"
  "round_half_even (5902958103587057 / 2 ^ 71 * 1000000) = 3"
  by (simp_all add: float_times_def py_round_def float_eval floor_log2_eqI [where e = 1])

text \<open>Rounding keeps the sign of what is not positive.\<close>

lemma round_half_even_nonpos:
  assumes "x \<le> 0"
  shows "round_half_even x \<le> 0"
proof -
  define f where "f = \<lfloor>x\<rfloor>"
  have f0: "f \<le> 0"
    using assms by (simp add: f_def floor_le_iff)
  show ?thesis
  proof (cases "f = 0")
    case True
    then have "0 \<le> x"
      unfolding f_def by (metis of_int_0 of_int_floor_le)
    with assms have "x = 0"
      by simp
    then show ?thesis
      by (simp add: round_half_even_def)
  next
    case False
    with f0 have "f + 1 \<le> 0"
      by linarith
    with f0 show ?thesis
      by (simp add: round_half_even_def Let_def f_def [symmetric])
  qed
qed

lemma rounded_nonpos:
  assumes "m \<le> 0" and "(0::rat) < s" and "x < (0::rat)"
  shows "nonpositive (if B \<le> \<bar>of_int m * s\<bar> then (if 0 < x then PosInf else NegInf)
                      else if m = 0 \<and> x < 0 then NegZero else Finite (of_int m * s))"
proof -
  have "of_int m * s \<le> 0"
    using assms by (simp add: mult_nonpos_nonneg)
  moreover have "\<not> 0 < x"
    using assms by simp
  ultimately show ?thesis
    by (simp add: nonpositive_def)
qed

lemma round_to_double_nonpos:
  assumes "x \<le> 0"
  shows "nonpositive (round_to_double x)"
proof (cases "x = 0")
  case True
  then show ?thesis
    by (simp add: round_to_double_def nonpositive_def)
next
  case False
  with assms have x: "x < 0"
    by simp
  have p: "(0::rat) < 2 powi q" for q
    by simp
  have "x / 2 powi q \<le> 0" for q
    using x p [of q] by (simp add: divide_nonpos_pos)
  then have m: "round_half_even (x / 2 powi q) \<le> 0" for q
    by (rule round_half_even_nonpos)
  show ?thesis
    unfolding round_to_double_def Let_def
    by (simp only: False if_False) (rule rounded_nonpos [OF m p x])
qed

lemma float_over_nonpos: "nonpositive x \<Longrightarrow> 0 < c \<Longrightarrow> nonpositive (float_over x c)"
  by (cases x)
     (simp_all add: float_over_def nonpositive_def [of "Finite _"] nonpositive_def [of NegZero]
        nonpositive_def [of NegInf] nonpositive_def [of PosInf] nonpositive_def [of NaN]
        round_to_double_nonpos divide_nonpos_pos)

lemma float_times_nonpos: "nonpositive x \<Longrightarrow> 0 < c \<Longrightarrow> nonpositive (float_times x c)"
  by (cases x)
     (simp_all add: float_times_def nonpositive_def [of "Finite _"] nonpositive_def [of NegZero]
        nonpositive_def [of NegInf] nonpositive_def [of PosInf] nonpositive_def [of NaN]
        round_to_double_nonpos mult_nonpos_nonneg)

lemma py_round_nonpos:
  "nonpositive x \<Longrightarrow> py_round x = Inl OverflowError \<or> (\<exists>r\<le>0. py_round x = Inr r)"
  by (cases x) (simp_all add: py_round_def nonpositive_def round_half_even_nonpos)

subsection \<open>Fee split\<close>

lemma rawFee_le:
  assumes "0 \<le> a" and "ppm \<le> 1000000"
  shows "(a * ppm + 1000000 - 1) div 1000000 \<le> (a::int)"
proof -
  have "a * ppm \<le> a * 1000000"
    using assms by (simp add: mult_left_mono)
  then have "(a * ppm + 1000000 - 1) div 1000000 \<le> (a * 1000000 + 999999) div 1000000"
    by (intro zdiv_mono1) simp_all
  also have "\<dots> = a"
    by simp
  finally show ?thesis .
qed

text \<open>The fees at a positive amount, once the rate is known.\<close>

lemma calculateFees_rate:
  assumes "0 < a" and "effectivePpm p = Inr r"
  shows "calculateFees p a =
           Inr (if r \<le> 0 \<or> (a * r + 1000000 - 1) div 1000000 \<le> 0 then zeroFees
                else \<lparr>totalFee =
                        (let lp = ((a * r + 1000000 - 1) div 1000000 * 4 + 5 - 1) div 5;
                             lp1 = (if lp < 1 then 1 else lp);
                             pf = (a * r + 1000000 - 1) div 1000000 - lp1
                         in lp1 + (if pf < 0 then 0 else pf)),
                      lpFee =
                        (let lp = ((a * r + 1000000 - 1) div 1000000 * 4 + 5 - 1) div 5
                         in if lp < 1 then 1 else lp),
                      protocolFee =
                        (let lp = ((a * r + 1000000 - 1) div 1000000 * 4 + 5 - 1) div 5;
                             lp1 = (if lp < 1 then 1 else lp);
                             pf = (a * r + 1000000 - 1) div 1000000 - lp1
                         in if pf < 0 then 0 else pf)\<rparr>)"
  using assms by (simp add: calculateFees_def effectivePpm_def Let_def)

lemma calculateFees_error:
  assumes "0 < a" and "effectivePpm p = Inl e"
  shows "calculateFees p a = Inl e"
  using assms by (simp add: calculateFees_def effectivePpm_def)

lemma calculateFees_nonpositive_amount: "a \<le> 0 \<Longrightarrow> calculateFees p a = Inr zeroFees"
  by (simp add: calculateFees_def)


text \<open>
  C3 (as amended). For every pool with \<open>feeRatePpm \<le> 0\<close>: \<open>calculateFees(amountIn)\<close>
  returns zero fees when \<open>amountIn \<le> 0\<close>, and otherwise takes its rate from the float
  field, \<open>r = int(round(feeRate * 1_000_000))\<close> with the product rounded to a double: it
  raises ValueError when that is a NaN and OverflowError when it is infinite, returns
  zero fees when \<open>r \<le> 0\<close>, and returns the fees of a pool with \<open>feeRatePpm = r\<close> when
  \<open>r > 0\<close>.
\<close>

theorem calculateFees_nonpositive_ppm:
  assumes "feeRatePpm p \<le> 0"
  shows "(a \<le> 0 \<longrightarrow> calculateFees p a = Inr zeroFees)
       \<and> (0 < a \<longrightarrow>
            (case py_round (float_times (feeRate p) 1000000) of
               Inl e \<Rightarrow> calculateFees p a = Inl e
             | Inr r \<Rightarrow>
                 (r \<le> 0 \<longrightarrow> calculateFees p a = Inr zeroFees)
                 \<and> (0 < r \<longrightarrow> calculateFees p a = calculateFees (p\<lparr>feeRatePpm := r\<rparr>) a)))"
  using assms by (simp add: calculateFees_def split: sum.splits)

theorem calculateFees_nonpositive_ppm_witness:
  "calculateFees (Pool_init 0 60) 10000 = Inr zeroFees
   \<and> calculateFees (Pool_init 0 60) (- 1) = Inr zeroFees
   \<and> calculateFees ((Pool_init 0 60)\<lparr>feeRate := Finite (1 / 2)\<rparr>) 10
       = calculateFees ((Pool_init 0 60)\<lparr>feeRate := Finite (1 / 2), feeRatePpm := 500000\<rparr>) 10
   \<and> calculateFees ((Pool_init 0 60)\<lparr>feeRate := NaN\<rparr>) 10 = Inl ValueError"
proof -
  have ppm: "feeRatePpm (Pool_init 0 60) \<le> 0"
    by (simp add: Pool_init_def)
  have "feeRate (Pool_init 0 60) = Finite 0"
    by (simp add: Pool_init_def float_over_def round_to_double_0)
  then have "py_round (float_times (feeRate (Pool_init 0 60)) 1000000) = Inr 0"
    by (simp add: float_times_def round_to_double_0 py_round_def round_half_even_def)
  with calculateFees_nonpositive_ppm [OF ppm, of 10000]
  have A: "calculateFees (Pool_init 0 60) 10000 = Inr zeroFees"
    by simp
  have B: "calculateFees (Pool_init 0 60) (- 1) = Inr zeroFees"
    using calculateFees_nonpositive_ppm [OF ppm, of "- 1"] by simp
  have ppm': "feeRatePpm ((Pool_init 0 60)\<lparr>feeRate := x\<rparr>) \<le> 0" for x
    by (simp add: Pool_init_def)
  have "py_round (float_times (feeRate ((Pool_init 0 60)\<lparr>feeRate := Finite (1 / 2)\<rparr>)) 1000000)
          = Inr 500000"
    by (simp add: half_times_million py_round_def round_half_even_def)
  with calculateFees_nonpositive_ppm [OF ppm' [of "Finite (1 / 2)"], of 10]
  have C: "calculateFees ((Pool_init 0 60)\<lparr>feeRate := Finite (1 / 2)\<rparr>) 10
             = calculateFees ((Pool_init 0 60)\<lparr>feeRate := Finite (1 / 2), feeRatePpm := 500000\<rparr>) 10"
    by simp
  have "py_round (float_times (feeRate ((Pool_init 0 60)\<lparr>feeRate := NaN\<rparr>)) 1000000)
          = Inl ValueError"
    by (simp add: float_times_def py_round_def)
  with calculateFees_nonpositive_ppm [OF ppm' [of NaN], of 10]
  have D: "calculateFees ((Pool_init 0 60)\<lparr>feeRate := NaN\<rparr>) 10 = Inl ValueError"
    by simp
  from A B C D show ?thesis
    by simp
qed

text \<open>
  C3 as stated fails: a pool with \<open>feeRatePpm = 0\<close> and \<open>feeRate = 0.5\<close> charges
  a fee of 5 on an input of 10.
\<close>

theorem calculateFees_zero_ppm_counterexample:
  "feeRatePpm ((Pool_init 0 60)\<lparr>feeRate := Finite (1 / 2)\<rparr>) \<le> 0
   \<and> calculateFees ((Pool_init 0 60)\<lparr>feeRate := Finite (1 / 2)\<rparr>) 10
       = Inr \<lparr>totalFee = 5, lpFee = 4, protocolFee = 1\<rparr>"
  by (simp add: calculateFees_def Pool_init_def half_times_million py_round_def
        round_half_even_def Let_def)

text \<open>With \<open>feeRate = 2.5e-6\<close> the rate is 2 ppm, the rounding of the double product.\<close>

lemma calculateFees_double_product:
  "calculateFees ((Pool_init 0 60)\<lparr>feeRate := Finite (5902958103587057 / 2 ^ 71)\<rparr>) 1000000
     = Inr \<lparr>totalFee = 2, lpFee = 2, protocolFee = 0\<rparr>"
  by (simp add: calculateFees_def Pool_init_def float_times_def py_round_def float_eval
        floor_log2_eqI [where e = 1])

text \<open>
  With the \<open>feeRate\<close> that the constructor computes from a \<open>feeRatePpm \<le> 0\<close>, the rate
  read from \<open>feeRate\<close> is not positive either, and \<open>calculateFees\<close> returns zero fees
  whenever it returns.
\<close>

lemma calculateFees_constructed_nonpositive_ppm:
  assumes ppm: "feeRatePpm p \<le> 0"
    and rate: "feeRate p = feeRate (Pool_init (feeRatePpm p) spacing)"
    and ret: "calculateFees p a = Inr f"
  shows "f = zeroFees"
proof -
  have "nonpositive (round_to_double (of_int (feeRatePpm p)))"
    using ppm by (intro round_to_double_nonpos) simp
  then have "nonpositive (feeRate p)"
    by (simp add: rate Pool_init_def float_over_nonpos)
  then have "nonpositive (float_times (feeRate p) 1000000)"
    by (simp add: float_times_nonpos)
  from py_round_nonpos [OF this] ppm ret show ?thesis
    by (auto simp: calculateFees_def split: if_splits)
qed

text \<open>
  C4 (as amended). Whenever \<open>calculateFees(amountIn)\<close> returns, \<open>lpFee + protocolFee =
  totalFee\<close>; and \<open>totalFee \<le> amountIn\<close> for every \<open>amountIn \<ge> 0\<close> when the pool's rate
  is at most 1_000_000 ppm.
\<close>

theorem calculateFees_split_and_bound:
  "calculateFees p a = Inr f \<longrightarrow>
     lpFee f + protocolFee f = totalFee f
     \<and> (0 \<le> a \<and> (\<forall>r. effectivePpm p = Inr r \<longrightarrow> r \<le> 1000000) \<longrightarrow> totalFee f \<le> a)"
proof (intro conjI impI)
  assume f: "calculateFees p a = Inr f"
  then show "lpFee f + protocolFee f = totalFee f"
    by (cases "0 < a"; cases "effectivePpm p")
       (auto simp: calculateFees_rate calculateFees_error calculateFees_nonpositive_amount
          zeroFees_def Let_def split: if_splits)
  assume h: "0 \<le> a \<and> (\<forall>r. effectivePpm p = Inr r \<longrightarrow> r \<le> 1000000)"
  show "totalFee f \<le> a"
  proof (cases "0 < a")
    case False
    with f h show ?thesis
      by (auto simp: calculateFees_nonpositive_amount zeroFees_def)
  next
    case True
    with f obtain r where r: "effectivePpm p = Inr r"
      by (cases "effectivePpm p") (simp_all add: calculateFees_error)
    with h have "r \<le> 1000000"
      by simp
    with h have "(a * r + 1000000 - 1) div 1000000 \<le> a"
      using rawFee_le [of a r] by blast
    with f True r show ?thesis
      by (auto simp: calculateFees_rate zeroFees_def Let_def split: if_splits)
  qed
qed

theorem calculateFees_split_and_bound_witness:
  "calculateFees (Pool_init 100 60) 10000 = Inr \<lparr>totalFee = 1, lpFee = 1, protocolFee = 0\<rparr>
   \<and> totalFee \<lparr>totalFee = 1, lpFee = 1, protocolFee = 0\<rparr> \<le> 10000"
proof -
  have c: "calculateFees (Pool_init 100 60) 10000
             = Inr \<lparr>totalFee = 1, lpFee = 1, protocolFee = 0\<rparr>"
    by (simp add: calculateFees_def Pool_init_def Let_def)
  have "effectivePpm (Pool_init 100 60) = Inr 100"
    by (simp add: effectivePpm_def Pool_init_def)
  with calculateFees_split_and_bound
         [of "Pool_init 100 60" 10000 "\<lparr>totalFee = 1, lpFee = 1, protocolFee = 0\<rparr>"] c
  show ?thesis
    by simp
qed

text \<open>
  The bound of C4 fails above 1_000_000 ppm: at 2_000_000 ppm an input of 1 is charged 2.
\<close>

theorem calculateFees_bound_counterexample:
  "calculateFees (Pool_init 2000000 60) 1 = Inr \<lparr>totalFee = 2, lpFee = 2, protocolFee = 0\<rparr>
   \<and> \<not> totalFee \<lparr>totalFee = 2, lpFee = 2, protocolFee = 0\<rparr> \<le> 1"
  by (simp add: calculateFees_def Pool_init_def Let_def)

subsection \<open>Tick book\<close>

lemma keys_delete: "fst ` set (AList.delete k al) = fst ` set al - {k}"
proof -
  have "set (map fst (AList.delete k al)) = set (map fst al) - {k}"
    by (simp add: delete_keys)
  then show ?thesis by simp
qed

lemma updateTickData_lookup_same:
  "map_of (ticks (updateTickData p t n g)) t = updatedTick (map_of (ticks p) t) n g"
  by (cases "map_of (ticks p) t")
     (auto simp: updateTickData_def updatedTick_def Let_def update_conv' delete_conv' max_def)

lemma updateTickData_lookup_other:
  "t' \<noteq> t \<Longrightarrow> map_of (ticks (updateTickData p t n g)) t' = map_of (ticks p) t'"
  by (cases "map_of (ticks p) t")
     (auto simp: updateTickData_def Let_def update_conv' delete_conv')

lemma updateTickData_keys:
  "fst ` set (ticks (updateTickData p t n g)) =
     (if updatedTick (map_of (ticks p) t) n g = None
      then fst ` set (ticks p) - {t} else insert t (fst ` set (ticks p)))"
  by (cases "map_of (ticks p) t")
     (auto simp: updateTickData_def updatedTick_def Let_def dom_update keys_delete update_conv')

lemma updateTickData_bitmap:
  "tickBitmap (updateTickData p t n g) =
     (if updatedTick (map_of (ticks p) t) n g = None
      then tickBitmap p - {t} else insert t (tickBitmap p))"
  by (cases "map_of (ticks p) t")
     (auto simp: updateTickData_def updatedTick_def Let_def update_conv')

lemma updateTickData_frame:
  "liquidity (updateTickData p t n g) = liquidity p"
  "tickCurrent (updateTickData p t n g) = tickCurrent p"
  by (simp_all add: updateTickData_def Let_def)

lemma updateTickData_consistent:
  "tickBookConsistent p \<Longrightarrow> tickBookConsistent (updateTickData p t n g)"
  by (simp add: tickBookConsistent_def updateTickData_keys updateTickData_bitmap)

lemma applyLiquidityDelta_ticks:
  "d \<noteq> 0 \<Longrightarrow> ticks (applyLiquidityDelta p tL tU d)
                = ticks (updateTickData (updateTickData p tL d d) tU (- d) d)"
  "d \<noteq> 0 \<Longrightarrow> tickBitmap (applyLiquidityDelta p tL tU d)
                = tickBitmap (updateTickData (updateTickData p tL d d) tU (- d) d)"
  by (simp_all add: applyLiquidityDelta_def Let_def)

lemma applyLiquidityDelta_consistent:
  assumes "tickBookConsistent p"
  shows "tickBookConsistent (applyLiquidityDelta p tL tU d)"
proof (cases "d = 0")
  case True
  with assms show ?thesis
    by (simp add: applyLiquidityDelta_def)
next
  case False
  have "tickBookConsistent (updateTickData (updateTickData p tL d d) tU (- d) d)"
    using assms by (intro updateTickData_consistent)
  with False show ?thesis
    by (simp add: tickBookConsistent_def applyLiquidityDelta_ticks)
qed

lemma pool_5_10_ticks:
  "ticks pool_5_10 =
     [(5, \<lparr>liquidityNet = 1000, liquidityGross = 1000,
           feeGrowthOutside0X64 = 0, feeGrowthOutside1X64 = 0\<rparr>),
      (10, \<lparr>liquidityNet = - 1000, liquidityGross = 1000,
            feeGrowthOutside0X64 = 0, feeGrowthOutside1X64 = 0\<rparr>)]"
  by (simp add: pool_5_10_def applyLiquidityDelta_def updateTickData_def Pool_init_def
        Let_def TickData_init_def)

lemma pool_5_10_tickBitmap: "tickBitmap pool_5_10 = {5, 10}"
  by (simp add: pool_5_10_def applyLiquidityDelta_def updateTickData_def Pool_init_def
        Let_def TickData_init_def insert_commute)

text \<open>
  C2 (as amended). For every \<open>tickLower\<close>, \<open>tickUpper\<close> and nonzero \<open>liquidityDelta\<close>,
  \<open>applyLiquidityDelta\<close> calls \<open>updateTickData\<close> with the signed \<open>liquidityDelta\<close> as
  gross delta at both ticks (\<open>+|liquidityDelta|\<close> when adding, \<open>-|liquidityDelta|\<close> when
  removing), with net delta \<open>+liquidityDelta\<close> at \<open>tickLower\<close> and \<open>-liquidityDelta\<close> at
  \<open>tickUpper\<close>; for distinct ticks each entry is the old one updated by these deltas.
\<close>

theorem applyLiquidityDelta_signed_gross:
  assumes "liquidityDelta \<noteq> 0"
  shows "ticks (applyLiquidityDelta p tickLower tickUpper liquidityDelta)
           = ticks (updateTickData
                      (updateTickData p tickLower liquidityDelta liquidityDelta)
                      tickUpper (- liquidityDelta) liquidityDelta)
       \<and> tickBitmap (applyLiquidityDelta p tickLower tickUpper liquidityDelta)
           = tickBitmap (updateTickData
                      (updateTickData p tickLower liquidityDelta liquidityDelta)
                      tickUpper (- liquidityDelta) liquidityDelta)
       \<and> (tickLower \<noteq> tickUpper \<longrightarrow>
            map_of (ticks (applyLiquidityDelta p tickLower tickUpper liquidityDelta)) tickLower
              = updatedTick (map_of (ticks p) tickLower) liquidityDelta liquidityDelta
          \<and> map_of (ticks (applyLiquidityDelta p tickLower tickUpper liquidityDelta)) tickUpper
              = updatedTick (map_of (ticks p) tickUpper) (- liquidityDelta) liquidityDelta)"
  using assms
  by (simp add: applyLiquidityDelta_ticks updateTickData_lookup_same
        updateTickData_lookup_other)

theorem applyLiquidityDelta_signed_gross_witness:
  "map_of (ticks (applyLiquidityDelta pool_5_10 5 10 (- 400))) 5
     = Some \<lparr>liquidityNet = 600, liquidityGross = 600,
             feeGrowthOutside0X64 = 0, feeGrowthOutside1X64 = 0\<rparr>
   \<and> map_of (ticks (applyLiquidityDelta pool_5_10 5 10 (- 400))) 10
     = Some \<lparr>liquidityNet = - 600, liquidityGross = 600,
             feeGrowthOutside0X64 = 0, feeGrowthOutside1X64 = 0\<rparr>"
proof -
  have "(- 400 :: int) \<noteq> 0" and "(5 :: int) \<noteq> 10"
    by simp_all
  with applyLiquidityDelta_signed_gross [of "- 400" pool_5_10 5 10]
  have "map_of (ticks (applyLiquidityDelta pool_5_10 5 10 (- 400))) 5
          = updatedTick (map_of (ticks pool_5_10) 5) (- 400) (- 400)"
    and "map_of (ticks (applyLiquidityDelta pool_5_10 5 10 (- 400))) 10
          = updatedTick (map_of (ticks pool_5_10) 10) (- (- 400)) (- 400)"
    by blast+
  then show ?thesis
    by (simp add: updatedTick_def pool_5_10_ticks)
qed

text \<open>
  C2 as stated fails when liquidity is removed: after \<open>applyLiquidityDelta(5, 10, 1000)\<close>,
  \<open>applyLiquidityDelta(5, 10, -400)\<close> leaves \<open>liquidityGross = 600\<close> at tick 5, where a
  gross delta of \<open>|-400|\<close> would leave 1400.
\<close>

theorem applyLiquidityDelta_abs_gross_counterexample:
  "map_option liquidityGross (map_of (ticks (applyLiquidityDelta pool_5_10 5 10 (- 400))) 5)
     = Some 600
   \<and> map_option liquidityGross (updatedTick (map_of (ticks pool_5_10) 5) (- 400) \<bar>- 400\<bar>)
     = Some 1400"
  by (simp add: applyLiquidityDelta_def updateTickData_def updatedTick_def Let_def
        pool_5_10_ticks)

subsection \<open>What the swap engine leaves alone\<close>

lemma updateFeeGrowthOutside_frame:
  "liquidity (updateFeeGrowthOutside p t z) = liquidity p"
  "tickBitmap (updateFeeGrowthOutside p t z) = tickBitmap p"
  "fst ` set (ticks (updateFeeGrowthOutside p t z)) = fst ` set (ticks p)"
  by (auto simp: updateFeeGrowthOutside_def Let_def dom_update split: option.splits
           dest: map_of_SomeD intro: rev_image_eqI)

lemma updateFeeGrowth_frame:
  "liquidity (updateFeeGrowth p f z) = liquidity p"
  "ticks (updateFeeGrowth p f z) = ticks p"
  "tickBitmap (updateFeeGrowth p f z) = tickBitmap p"
  "sqrtPriceX64 (updateFeeGrowth p f z) = sqrtPriceX64 p"
  "tickCurrent (updateFeeGrowth p f z) = tickCurrent p"
  by (simp_all add: updateFeeGrowth_def Let_def)

lemma loop_liquidity:
  "0 \<le> liquidity p \<Longrightarrow> 0 \<le> liquidity (snd (executeCLMMSwap_loop M z p P T out rem))"
proof (induction M z p P T out rem rule: executeCLMMSwap_loop.induct)
  case (1 M z p P T out rem)
  show ?case
    apply (subst executeCLMMSwap_loop.simps)
    using 1
    by (auto simp: Let_def updateFeeGrowthOutside_frame split: option.splits)
qed

lemma loop_keys:
  "fst ` set (ticks (snd (executeCLMMSwap_loop M z p P T out rem))) = fst ` set (ticks p) \<and>
   tickBitmap (snd (executeCLMMSwap_loop M z p P T out rem)) = tickBitmap p"
proof (induction M z p P T out rem rule: executeCLMMSwap_loop.induct)
  case (1 M z p P T out rem)
  show ?case
    apply (subst executeCLMMSwap_loop.simps)
    apply (subst (2) executeCLMMSwap_loop.simps)
    using 1
    by (auto simp: Let_def updateFeeGrowthOutside_frame split: option.splits)
qed

lemma executeCLMMSwap_liquidity:
  "0 \<le> liquidity p \<Longrightarrow> 0 \<le> liquidity (snd (executeCLMMSwap M p a z))"
  by (simp add: executeCLMMSwap_def loop_liquidity)

lemma executeCLMMSwap_keys:
  "fst ` set (ticks (snd (executeCLMMSwap M p a z))) = fst ` set (ticks p)"
  "tickBitmap (snd (executeCLMMSwap M p a z)) = tickBitmap p"
  by (simp_all add: executeCLMMSwap_def loop_keys)

lemma applySwapInternal_liquidity:
  "0 \<le> liquidity p \<Longrightarrow> 0 \<le> liquidity (snd (applySwapInternal M p a z fees))"
  by (simp add: applySwapInternal_def Let_def case_prod_beta updateFeeGrowth_frame
        executeCLMMSwap_liquidity)

lemma applySwapInternal_keys:
  "fst ` set (ticks (snd (applySwapInternal M p a z fees))) = fst ` set (ticks p)"
  "tickBitmap (snd (applySwapInternal M p a z fees)) = tickBitmap p"
  by (simp_all add: applySwapInternal_def Let_def case_prod_beta updateFeeGrowth_frame
        executeCLMMSwap_keys)

lemma applySwap_liquidity:
  "0 \<le> liquidity p \<Longrightarrow> 0 \<le> liquidity (snd (applySwap M p a z))"
  by (simp add: applySwap_def case_prod_beta applySwapInternal_liquidity split: sum.splits)

lemma applySwap_consistent:
  "tickBookConsistent p \<Longrightarrow> tickBookConsistent (snd (applySwap M p a z))"
  by (simp add: tickBookConsistent_def applySwap_def case_prod_beta applySwapInternal_keys
        split: sum.splits)

lemma applySwapWithValidation_liquidity:
  "0 \<le> liquidity p \<Longrightarrow>
   0 \<le> liquidity (snd (applySwapWithValidation M p a z e1 e2 e3))"
  by (simp add: applySwapWithValidation_def Let_def case_prod_beta
        applySwapInternal_liquidity split: sum.splits)

lemma applySwapWithValidation_consistent:
  "tickBookConsistent p \<Longrightarrow>
   tickBookConsistent (snd (applySwapWithValidation M p a z e1 e2 e3))"
  by (simp add: tickBookConsistent_def applySwapWithValidation_def Let_def case_prod_beta
        applySwapInternal_keys split: sum.splits)

lemma updateTickFeeGrowthForFlashSwap_frame:
  "liquidity (updateTickFeeGrowthForFlashSwap p) = liquidity p"
  "tickBitmap (updateTickFeeGrowthForFlashSwap p) = tickBitmap p"
  "map fst (ticks (updateTickFeeGrowthForFlashSwap p)) = map fst (ticks p)"
  by (simp_all add: updateTickFeeGrowthForFlashSwap_def case_prod_beta comp_def)

lemma applyRepayFlashSwap_liquidity:
  "liquidity (applyRepayFlashSwap p dx dy px py rx ry) = liquidity p"
  by (simp add: applyRepayFlashSwap_def Let_def updateTickFeeGrowthForFlashSwap_frame
        updateFeeGrowth_frame split: option.splits)

lemma applyRepayFlashSwap_keys:
  "map fst (ticks (applyRepayFlashSwap p dx dy px py rx ry)) = map fst (ticks p)"
  "tickBitmap (applyRepayFlashSwap p dx dy px py rx ry) = tickBitmap p"
  by (simp_all add: applyRepayFlashSwap_def Let_def updateTickFeeGrowthForFlashSwap_frame
        updateFeeGrowth_frame split: option.splits)

lemma applyRepayFlashSwap_consistent:
  assumes "tickBookConsistent p"
  shows "tickBookConsistent (applyRepayFlashSwap p dx dy px py rx ry)"
proof -
  have "fst ` set (ticks q) = set (map fst (ticks q))" for q :: Pool
    by simp
  then show ?thesis
    using assms unfolding tickBookConsistent_def by (simp only: applyRepayFlashSwap_keys)
qed

subsection \<open>Invariants of the public operations\<close>

text \<open>
  C7. Starting from a pool with \<open>liquidity \<ge> 0\<close>, each of \<open>applyLiquidityDelta\<close>,
  \<open>applySwap\<close>, \<open>applySwapWithValidation\<close> and \<open>applyRepayFlashSwap\<close> leaves
  \<open>liquidity \<ge> 0\<close>; a delta applied in range that would make it negative leaves 0.
\<close>

theorem liquidity_nonnegative_preserved:
  assumes "0 \<le> liquidity p"
  shows "0 \<le> liquidity (applyLiquidityDelta p tickLower tickUpper d)
       \<and> 0 \<le> liquidity (snd (applySwap M p a z))
       \<and> 0 \<le> liquidity (snd (applySwapWithValidation M p a z e1 e2 e3))
       \<and> 0 \<le> liquidity (applyRepayFlashSwap p dx dy px py rx ry)
       \<and> (d \<noteq> 0 \<and> tickLower \<le> tickCurrent p \<and> tickCurrent p < tickUpper \<longrightarrow>
            liquidity (applyLiquidityDelta p tickLower tickUpper d)
              = max 0 (liquidity p + d))"
proof (intro conjI impI)
  show "0 \<le> liquidity (applyLiquidityDelta p tickLower tickUpper d)"
    using assms by (simp add: applyLiquidityDelta_def Let_def updateTickData_frame)
  show "0 \<le> liquidity (snd (applySwap M p a z))"
    using assms by (rule applySwap_liquidity)
  show "0 \<le> liquidity (snd (applySwapWithValidation M p a z e1 e2 e3))"
    using assms by (rule applySwapWithValidation_liquidity)
  show "0 \<le> liquidity (applyRepayFlashSwap p dx dy px py rx ry)"
    using assms by (simp add: applyRepayFlashSwap_liquidity)
  show "liquidity (applyLiquidityDelta p tickLower tickUpper d) = max 0 (liquidity p + d)"
    if "d \<noteq> 0 \<and> tickLower \<le> tickCurrent p \<and> tickCurrent p < tickUpper"
    using that by (simp add: applyLiquidityDelta_def Let_def updateTickData_frame max_def)
qed

theorem liquidity_nonnegative_preserved_witness:
  "liquidity (applyLiquidityDelta pool_in_range 5 10 (- 2500)) = 0
   \<and> 0 \<le> liquidity (snd (applySwap exactMath pool_in_range 10000 True))"
proof -
  have "0 \<le> liquidity pool_in_range"
    by (simp add: pool_in_range_def)
  from liquidity_nonnegative_preserved [OF this, of 5 10 "- 2500" exactMath 10000 True]
  show ?thesis
    by (simp add: pool_in_range_def)
qed

text \<open>
  C8. Starting from a pool in which a tick index is a key of \<open>ticks\<close> if and only if it
  is in \<open>tickBitmap\<close>, \<open>updateTickData\<close> and \<open>applyLiquidityDelta\<close> (and the swap and
  flash-swap operations) keep that equivalence; and \<open>updateTickData\<close> removes the tick
  from both exactly when, with the deltas added, \<open>liquidityGross \<le> 0\<close> and
  \<open>liquidityNet = 0\<close>, and otherwise leaves it in both.
\<close>

theorem tickBook_consistency_preserved:
  assumes "tickBookConsistent p"
  shows "tickBookConsistent (updateTickData p t n g)
       \<and> tickBookConsistent (applyLiquidityDelta p tickLower tickUpper d)
       \<and> ((t \<notin> fst ` set (ticks (updateTickData p t n g))
            \<and> t \<notin> tickBitmap (updateTickData p t n g))
           = (liquidityGross (tickDataOrInit p t) + g \<le> 0
              \<and> liquidityNet (tickDataOrInit p t) + n = 0))
       \<and> ((t \<in> fst ` set (ticks (updateTickData p t n g))
            \<and> t \<in> tickBitmap (updateTickData p t n g))
           = (\<not> (liquidityGross (tickDataOrInit p t) + g \<le> 0
                 \<and> liquidityNet (tickDataOrInit p t) + n = 0)))
       \<and> tickBookConsistent (snd (applySwap M p a z))
       \<and> tickBookConsistent (snd (applySwapWithValidation M p a z e1 e2 e3))
       \<and> tickBookConsistent (applyRepayFlashSwap p dx dy px py rx ry)"
proof -
  have del: "(updatedTick (map_of (ticks p) t) n g = None)
               = (liquidityGross (tickDataOrInit p t) + g \<le> 0
                  \<and> liquidityNet (tickDataOrInit p t) + n = 0)"
    by (simp add: updatedTick_def tickDataOrInit_def Let_def)
  have "(t \<notin> fst ` set (ticks (updateTickData p t n g))
          \<and> t \<notin> tickBitmap (updateTickData p t n g))
        = (updatedTick (map_of (ticks p) t) n g = None)"
    by (simp add: updateTickData_keys updateTickData_bitmap)
  moreover have "(t \<in> fst ` set (ticks (updateTickData p t n g))
          \<and> t \<in> tickBitmap (updateTickData p t n g))
        = (updatedTick (map_of (ticks p) t) n g \<noteq> None)"
    by (simp add: updateTickData_keys updateTickData_bitmap)
  ultimately show ?thesis
    using assms
    by (simp only: del updateTickData_consistent applyLiquidityDelta_consistent
          applySwap_consistent applySwapWithValidation_consistent
          applyRepayFlashSwap_consistent simp_thms)
qed

theorem tickBook_consistency_preserved_witness:
  "tickBookConsistent (updateTickData pool_5_10 5 (- 1000) (- 1000))
   \<and> 5 \<notin> tickBitmap (updateTickData pool_5_10 5 (- 1000) (- 1000))
   \<and> tickBookConsistent (applyLiquidityDelta pool_5_10 5 10 (- 400))"
proof -
  have "tickBookConsistent pool_5_10"
    by (simp add: tickBookConsistent_def pool_5_10_ticks pool_5_10_tickBitmap)
  from tickBook_consistency_preserved [OF this, of 5 "- 1000" "- 1000" 5 10 "- 400"]
  show ?thesis
    by (simp add: tickDataOrInit_def pool_5_10_ticks)
qed

subsection \<open>Evaluating the swap loop\<close>

lemma exactMath_tick_0: "tickToSqrtPrice exactMath 0 = 2 ^ 64"
  by (simp add: exactMath_def Base_def Q64_def)

lemma exactMath_log_one: "floorLogTick exactMath (2 ^ 64) = 0"
  by (simp add: exactMath_def Base_def Q64_def)

lemma getNextTick_list:
  assumes "tickBitmap p = set xs"
  shows "getNextTick p T z =
     (if z then (case rev (sort (remdups (filter (\<lambda>t. t < T) xs))) of
                   [] \<Rightarrow> None | t # _ \<Rightarrow> Some t)
      else (case sort (remdups (filter (\<lambda>t. t > T) xs)) of
              [] \<Rightarrow> None | t # _ \<Rightarrow> Some t))"
proof -
  have "sorted_list_of_set {t \<in> set xs. Q t} = sort (remdups (filter Q xs))" for Q
    using sorted_list_of_set_sort_remdups [of "filter Q xs"] by simp
  then show ?thesis
    by (simp add: getNextTick_def assms)
qed

text \<open>With no active liquidity the loop stops in its first iteration, with no output.\<close>

lemma loop_zero_liquidity:
  assumes "liquidity p = 0" and "0 < rem"
  shows "executeCLMMSwap_loop M z p P T out rem =
           (\<lparr>amountOut = out, newSqrtPriceX64 = P,
             newTick = (if getNextTick p T z = None then sqrtPriceToTick M P else T)\<rparr>, p)"
  using assms
  by (subst executeCLMMSwap_loop.simps)
     (simp add: swapAtPrice_def calculateMaxSwapAtPrice_def Let_def split: option.splits)

subsection \<open>Degenerate swaps\<close>







text \<open>
  With active liquidity, a missing initialized tick on the required side is not a
  degenerate input: the whole amount is swapped against the current liquidity, whatever
  the tick functions return.
\<close>

lemma applySwap_without_next_tick:
  "getNextTick pool_no_ticks (tickCurrent pool_no_ticks) True = None
   \<and> fst (applySwap M pool_no_ticks 10000 True) = Inr 909"
proof
  show "getNextTick pool_no_ticks (tickCurrent pool_no_ticks) True = None"
    by (simp add: getNextTick_def pool_no_ticks_def Pool_init_def)
  show "fst (applySwap M pool_no_ticks 10000 True) = Inr 909"
    apply (simp add: applySwap_def applySwapInternal_def calculateFees_def pool_no_ticks_def
        Pool_init_def Let_def updateFeeGrowth_def executeCLMMSwap_def)
    apply (subst executeCLMMSwap_loop.simps)
    apply (simp add: getNextTick_def swapAtPrice_def Q64_def Let_def mulDivRoundingDown_def)
    done
qed

subsection \<open>Estimation\<close>

lemma updateFeeGrowthOutside_other_fields:
  "sqrtPriceX64 (updateFeeGrowthOutside q t z) = sqrtPriceX64 q"
  "tickCurrent (updateFeeGrowthOutside q t z) = tickCurrent q"
  "feeGrowthGlobal0X64 (updateFeeGrowthOutside q t z) = feeGrowthGlobal0X64 q"
  "feeGrowthGlobal1X64 (updateFeeGrowthOutside q t z) = feeGrowthGlobal1X64 q"
  "totalSwapFee0 (updateFeeGrowthOutside q t z) = totalSwapFee0 q"
  "totalSwapFee1 (updateFeeGrowthOutside q t z) = totalSwapFee1 q"
  by (simp_all add: updateFeeGrowthOutside_def Let_def split: option.splits)

text \<open>
  The loop writes \<open>liquidity\<close> and the ticks' snapshots; the price, the current tick,
  the global fee growth and the fee totals of the pool it returns are the old ones.
\<close>

lemma loop_other_fields:
  "sqrtPriceX64 (snd (executeCLMMSwap_loop M z p P T out rem)) = sqrtPriceX64 p \<and>
   tickCurrent (snd (executeCLMMSwap_loop M z p P T out rem)) = tickCurrent p \<and>
   feeGrowthGlobal0X64 (snd (executeCLMMSwap_loop M z p P T out rem)) = feeGrowthGlobal0X64 p \<and>
   feeGrowthGlobal1X64 (snd (executeCLMMSwap_loop M z p P T out rem)) = feeGrowthGlobal1X64 p \<and>
   totalSwapFee0 (snd (executeCLMMSwap_loop M z p P T out rem)) = totalSwapFee0 p \<and>
   totalSwapFee1 (snd (executeCLMMSwap_loop M z p P T out rem)) = totalSwapFee1 p"
proof (induction M z p P T out rem rule: executeCLMMSwap_loop.induct)
  case (1 M z p P T out rem)
  show ?case
    apply (subst executeCLMMSwap_loop.simps)
    apply (subst (2) executeCLMMSwap_loop.simps)
    apply (subst (3) executeCLMMSwap_loop.simps)
    apply (subst (4) executeCLMMSwap_loop.simps)
    apply (subst (5) executeCLMMSwap_loop.simps)
    apply (subst (6) executeCLMMSwap_loop.simps)
    using 1
    by (auto simp: Let_def updateFeeGrowthOutside_other_fields split: option.splits)
qed

lemma estimateAmountOut_other_fields:
  "sqrtPriceX64 (snd (estimateAmountOut M p a z)) = sqrtPriceX64 p \<and>
   tickCurrent (snd (estimateAmountOut M p a z)) = tickCurrent p \<and>
   feeGrowthGlobal0X64 (snd (estimateAmountOut M p a z)) = feeGrowthGlobal0X64 p \<and>
   feeGrowthGlobal1X64 (snd (estimateAmountOut M p a z)) = feeGrowthGlobal1X64 p \<and>
   totalSwapFee0 (snd (estimateAmountOut M p a z)) = totalSwapFee0 p \<and>
   totalSwapFee1 (snd (estimateAmountOut M p a z)) = totalSwapFee1 p"
proof (cases "calculateFees p a")
  case (Inl e)
  then show ?thesis
    by (simp add: estimateAmountOut_def)
next
  case (Inr fees)
  show ?thesis
  proof (cases "totalFee fees < a")
    case True
    with Inr have "snd (estimateAmountOut M p a z)
                 = snd (executeCLMMSwap_loop M z p (sqrtPriceX64 p) (tickCurrent p) 0
                          (a - totalFee fees))"
      by (simp add: estimateAmountOut_def executeCLMMSwap_def Let_def case_prod_beta)
    then show ?thesis
      by (simp only: loop_other_fields)
  next
    case False
    with Inr have "snd (estimateAmountOut M p a z) = p"
      by (simp add: estimateAmountOut_def Let_def)
    then show ?thesis
      by simp
  qed
qed

lemma pool_crossing_eq:
  "pool_crossing =
     (Pool_init 100 60)\<lparr>sqrtPriceX64 := 2 ^ 65, tickCurrent := 13863, liquidity := 1000,
        ticks := [(0, \<lparr>liquidityNet = 1000, liquidityGross = 1000,
                       feeGrowthOutside0X64 = 0, feeGrowthOutside1X64 = 0\<rparr>),
                  (20000, \<lparr>liquidityNet = - 1000, liquidityGross = 1000,
                           feeGrowthOutside0X64 = 0, feeGrowthOutside1X64 = 0\<rparr>)],
        tickBitmap := set [0, 20000]\<rparr>"
  by (simp add: pool_crossing_def applyLiquidityDelta_def updateTickData_def Pool_init_def
        Let_def TickData_init_def insert_commute)

lemma pool_crossing_fees:
  "calculateFees pool_crossing 10000 = Inr \<lparr>totalFee = 1, lpFee = 1, protocolFee = 0\<rparr>"
  "calculateFees (pool_crossing\<lparr>liquidity := 0\<rparr>) 10000
     = Inr \<lparr>totalFee = 1, lpFee = 1, protocolFee = 0\<rparr>"
  by (simp_all add: pool_crossing_eq calculateFees_def Pool_init_def Let_def)

text \<open>
  The first iteration on \<open>pool_crossing\<close>: 500 of the 9999 reach tick 0, the tick is
  crossed, and the crossing takes the position's 1000 out of the active liquidity.
\<close>

lemma loop_crossing_step:
  assumes "tickToSqrtPrice M 0 = 2 ^ 64"
  shows "executeCLMMSwap_loop M True pool_crossing (2 ^ 65) 13863 0 9999
       = executeCLMMSwap_loop M True (pool_crossing\<lparr>liquidity := 0\<rparr>) (2 ^ 64) 0 1000 9499"
  by (subst executeCLMMSwap_loop.simps)
     (simp add: pool_crossing_eq Pool_init_def getNextTick_list [where xs = "[0, 20000]"]
        calculateMaxSwapAtPrice_def assms Q64_def Let_def swapAtPrice_def
        mulDivRoundingDown_def updateFeeGrowthOutside_def)

lemma executeCLMMSwap_crossing:
  assumes "tickToSqrtPrice M 0 = 2 ^ 64"
  shows "executeCLMMSwap M pool_crossing 9999 True
       = (\<lparr>amountOut = 1000, newSqrtPriceX64 = 2 ^ 64, newTick = floorLogTick M (2 ^ 64)\<rparr>,
          pool_crossing\<lparr>liquidity := 0\<rparr>)"
proof -
  have next_none: "getNextTick (pool_crossing\<lparr>liquidity := 0\<rparr>) 0 True = None"
    by (simp add: getNextTick_list [where xs = "[0, 20000]"] pool_crossing_eq Pool_init_def)
  have fields: "sqrtPriceX64 pool_crossing = 2 ^ 65" "tickCurrent pool_crossing = 13863"
    by (simp_all add: pool_crossing_eq)
  have "executeCLMMSwap M pool_crossing 9999 True
          = executeCLMMSwap_loop M True pool_crossing (2 ^ 65) 13863 0 9999"
    by (simp only: executeCLMMSwap_def fields)
  also have "\<dots> = executeCLMMSwap_loop M True (pool_crossing\<lparr>liquidity := 0\<rparr>)
                     (2 ^ 64) 0 1000 9499"
    by (rule loop_crossing_step [OF assms])
  also have "\<dots> = (\<lparr>amountOut = 1000, newSqrtPriceX64 = 2 ^ 64,
                      newTick = floorLogTick M (2 ^ 64)\<rparr>, pool_crossing\<lparr>liquidity := 0\<rparr>)"
    by (simp add: loop_zero_liquidity next_none sqrtPriceToTick_def)
  finally show ?thesis .
qed

text \<open>
  Whatever the float functions return elsewhere, as long as tick 0 has the sqrt price
  \<open>2^64\<close> (which \<open>floor(sqrt(1.0001 ** 0) * 2 ** 64)\<close> is), the estimate empties the
  pool's active liquidity, and the same call repeated then estimates 0.
\<close>

lemma estimateAmountOut_crossing:
  assumes "tickToSqrtPrice M 0 = 2 ^ 64"
  shows "estimateAmountOut M pool_crossing 10000 True
           = (Inr (1000, 1), pool_crossing\<lparr>liquidity := 0\<rparr>)"
  by (simp add: estimateAmountOut_def pool_crossing_fees executeCLMMSwap_crossing [OF assms])

lemma estimateAmountOut_after_crossing:
  "estimateAmountOut M (pool_crossing\<lparr>liquidity := 0\<rparr>) 10000 True
     = (Inr (0, 1), pool_crossing\<lparr>liquidity := 0\<rparr>)"
proof -
  have "getNextTick (pool_crossing\<lparr>liquidity := 0\<rparr>) (tickCurrent pool_crossing) True = Some 0"
    by (simp add: getNextTick_list [where xs = "[0, 20000]"] pool_crossing_eq Pool_init_def)
  then show ?thesis
    by (simp add: estimateAmountOut_def executeCLMMSwap_def loop_zero_liquidity
          pool_crossing_fees)
qed

text \<open>
  C1. \<open>estimateAmountOut\<close> is to leave the pool as it found it. On \<open>pool_crossing\<close>,
  whose active liquidity is 1000, \<open>estimateAmountOut(10000, True)\<close> returns
  \<open>amountOut = 1000\<close> and \<open>feeAmount = 1\<close> and leaves the pool with active liquidity 0;
  the same call on the pool it left returns \<open>amountOut = 0\<close>.
\<close>

theorem estimateAmountOut_writes_liquidity:
  "liquidity pool_crossing = 1000
   \<and> estimateAmountOut exactMath pool_crossing 10000 True
       = (Inr (1000, 1), pool_crossing\<lparr>liquidity := 0\<rparr>)
   \<and> estimateAmountOut exactMath (pool_crossing\<lparr>liquidity := 0\<rparr>) 10000 True
       = (Inr (0, 1), pool_crossing\<lparr>liquidity := 0\<rparr>)"
proof -
  have "liquidity pool_crossing = 1000"
    by (simp add: pool_crossing_eq)
  then show ?thesis
    by (simp only: estimateAmountOut_crossing [OF exactMath_tick_0]
          estimateAmountOut_after_crossing simp_thms)
qed

subsection \<open>Serializer\<close>

text \<open>\<open>int(str(i)) = i\<close> for every integer.\<close>

lemma digit_val_digit_char: "d < 10 \<Longrightarrow> digit_val (digit_char d) = Some d"
  by (simp add: digit_val_def digit_char_def)

lemma digit_char_not_sign:
  assumes "d < 10"
  shows "digit_char d \<noteq> CHR ''-''" and "digit_char d \<noteq> CHR ''+''"
proof -
  have "digit_val (CHR ''-'') = None" "digit_val (CHR ''+'') = None"
    by (simp_all add: digit_val_def)
  with digit_val_digit_char [OF assms]
  show "digit_char d \<noteq> CHR ''-''" and "digit_char d \<noteq> CHR ''+''"
    by auto
qed

lemma nat_of_digits_append:
  "nat_of_digits acc (xs @ ys) = Option.bind (nat_of_digits acc xs) (\<lambda>n. nat_of_digits n ys)"
  by (induction xs arbitrary: acc) (auto split: option.splits)

lemma nat_of_digits_str_nat: "nat_of_digits 0 (str_nat n) = Some n"
proof (induction n rule: str_nat.induct)
  case (1 n)
  show ?case
  proof (cases "n < 10")
    case True
    then show ?thesis
      by (subst str_nat.simps) (simp add: digit_val_digit_char)
  next
    case False
    with 1 have "nat_of_digits 0 (str_nat (n div 10)) = Some (n div 10)"
      by simp
    with False show ?thesis
      by (subst str_nat.simps) (simp add: nat_of_digits_append digit_val_digit_char)
  qed
qed

lemma str_nat_head: "\<exists>c cs. str_nat n = c # cs \<and> c \<noteq> CHR ''-'' \<and> c \<noteq> CHR ''+''"
proof (induction n rule: str_nat.induct)
  case (1 n)
  show ?case
  proof (cases "n < 10")
    case True
    then show ?thesis
      by (subst str_nat.simps) (simp add: digit_char_not_sign)
  next
    case False
    with 1 obtain c cs where "str_nat (n div 10) = c # cs" "c \<noteq> CHR ''-''" "c \<noteq> CHR ''+''"
      by blast
    with False show ?thesis
      by (subst str_nat.simps) simp
  qed
qed

lemma py_int_py_str: "py_int (py_str i) = Some i"
proof (cases "i < 0")
  case True
  obtain c cs where "str_nat (nat (- i)) = c # cs"
    using str_nat_head by blast
  with True nat_of_digits_str_nat [of "nat (- i)"] show ?thesis
    by (simp add: py_int_def py_str_def)
next
  case False
  obtain c cs where s: "str_nat (nat i) = c # cs" "c \<noteq> CHR ''-''" "c \<noteq> CHR ''+''"
    using str_nat_head by blast
  have "nat_of_digits 0 (c # cs) = Some (nat i)"
    using nat_of_digits_str_nat [of "nat i"] by (simp only: s)
  with False s show ?thesis
    by (simp add: py_int_def py_str_def del: nat_of_digits.simps)
qed

lemma update_fresh: "k \<notin> fst ` set al \<Longrightarrow> AList.update k v al = al @ [(k, v)]"
  by (induction al) auto

lemma serialize_tick_fields:
  "j_tick (serialize_tick (k, d)) = k"
  "j_liquidityNet (serialize_tick (k, d)) = py_str (liquidityNet d)"
  "j_liquidityGross (serialize_tick (k, d)) = py_str (liquidityGross d)"
  "j_feeGrowthOutside0X64 (serialize_tick (k, d)) = py_str (feeGrowthOutside0X64 d)"
  "j_feeGrowthOutside1X64 (serialize_tick (k, d)) = py_str (feeGrowthOutside1X64 d)"
  by (simp_all add: serialize_tick_def)

lemma TickData_eta:
  "\<lparr>liquidityNet = liquidityNet d, liquidityGross = liquidityGross d,
    feeGrowthOutside0X64 = feeGrowthOutside0X64 d,
    feeGrowthOutside1X64 = feeGrowthOutside1X64 d\<rparr> = d"
  by (cases d) simp

lemma deserialize_ticks_serialize:
  "distinct (map fst (acc @ xs)) \<Longrightarrow>
   deserialize_ticks (map serialize_tick xs) acc = Some (acc @ xs)"
proof (induction xs arbitrary: acc)
  case Nil
  then show ?case by simp
next
  case (Cons x xs)
  obtain k d where x: "x = (k, d)" by (cases x)
  have fresh: "k \<notin> fst ` set acc"
    using Cons.prems by (auto simp: x)
  have "distinct (map fst ((acc @ [(k, d)]) @ xs))"
    using Cons.prems by (simp add: x)
  from Cons.IH [OF this] show ?case
    by (simp add: x serialize_tick_fields py_int_py_str update_fresh [OF fresh] TickData_eta)
qed

text \<open>\<open>float(100)\<close> is exact, so the constructor accepts 100 ppm.\<close>

lemma float_of_int_100: "float_of_int 100 = Inr (Finite 100)"
  by (simp add: float_of_int_def float_eval floor_log2_eqI [where e = 6])

lemma float_of_int_cases:
  "float_of_int n = Inl OverflowError \<or> (\<exists>f. float_of_int n = Inr f)"
  by (simp add: float_of_int_def split: pyfloat.splits)

lemma deserialize_serialize:
  assumes "distinct (map fst (ticks p))"
    and "set order = tickBitmap p"
    and "float_of_int (feeRatePpm p) \<noteq> Inl OverflowError"
  shows "deserialize (serialize order p) = Some (p\<lparr>validationStats := ValidationStats_init\<rparr>)"
proof -
  have t: "deserialize_ticks (map serialize_tick (ticks p)) [] = Some (ticks p)"
    using deserialize_ticks_serialize [of "[]" "ticks p"] assms(1) by simp
  obtain f where "float_of_int (feeRatePpm p) = Inr f"
    using float_of_int_cases [of "feeRatePpm p"] assms(3) by blast
  then have n: "Pool_new (feeRatePpm p) (tickSpacing p)
                  = Inr (Pool_init (feeRatePpm p) (tickSpacing p))"
    by (simp add: Pool_new_def)
  have "deserialize (serialize order p)
          = Some ((Pool_init (feeRatePpm p) (tickSpacing p))
                    \<lparr>reserveA := reserveA p, reserveB := reserveB p,
                     sqrtPriceX64 := sqrtPriceX64 p, liquidity := liquidity p,
                     tickCurrent := tickCurrent p, feeRate := feeRate p,
                     protocolFeeShareNumerator := protocolFeeShareNumerator p,
                     protocolFeeShareDenominator := protocolFeeShareDenominator p,
                     feeGrowthGlobal0X64 := feeGrowthGlobal0X64 p,
                     feeGrowthGlobal1X64 := feeGrowthGlobal1X64 p,
                     totalSwapFee0 := totalSwapFee0 p, totalSwapFee1 := totalSwapFee1 p,
                     ticks := ticks p, tickBitmap := set order\<rparr>)"
    by (simp add: deserialize_def serialize_def py_int_py_str get_int_def n t)
  also have "\<dots> = Some (p\<lparr>validationStats := ValidationStats_init\<rparr>)"
    using assms(2) by (cases p) (simp add: Pool_init_def)
  finally show ?thesis .
qed

lemma deserialize_overflow:
  assumes "float_of_int (feeRatePpm p) = Inl OverflowError"
  shows "deserialize (serialize order p) = None"
  using assms by (simp add: deserialize_def serialize_def py_int_py_str Pool_new_def)

text \<open>
  The keys of a Python dict are distinct. The constructor's empty dict is, and the
  operations keep them so.
\<close>

lemma updateTickData_distinct:
  "distinct (map fst (ticks p)) \<Longrightarrow> distinct (map fst (ticks (updateTickData p t n g)))"
  by (cases "map_of (ticks p) t")
     (simp_all add: updateTickData_def Let_def distinct_update distinct_delete)

lemma applyLiquidityDelta_distinct:
  "distinct (map fst (ticks p)) \<Longrightarrow>
   distinct (map fst (ticks (applyLiquidityDelta p tL tU d)))"
  by (simp add: applyLiquidityDelta_def Let_def updateTickData_distinct)

lemma updateFeeGrowthOutside_distinct:
  "distinct (map fst (ticks p)) \<Longrightarrow>
   distinct (map fst (ticks (updateFeeGrowthOutside p t z)))"
  by (simp add: updateFeeGrowthOutside_def Let_def distinct_update split: option.splits)

lemma loop_distinct:
  "distinct (map fst (ticks p)) \<Longrightarrow>
   distinct (map fst (ticks (snd (executeCLMMSwap_loop M z p P T out rem))))"
proof (induction M z p P T out rem rule: executeCLMMSwap_loop.induct)
  case (1 M z p P T out rem)
  show ?case
    apply (subst executeCLMMSwap_loop.simps)
    using 1
    by (auto simp: Let_def updateFeeGrowthOutside_distinct split: option.splits)
qed

lemma applySwap_distinct:
  "distinct (map fst (ticks p)) \<Longrightarrow> distinct (map fst (ticks (snd (applySwap M p a z))))"
  by (simp add: applySwap_def applySwapInternal_def Let_def case_prod_beta
        updateFeeGrowth_def executeCLMMSwap_def loop_distinct split: sum.splits)

text \<open>No operation but \<open>applySwapWithValidation\<close> reads or writes the validation counters.\<close>

lemma stats_irrelevant:
  "calculateFees (p\<lparr>validationStats := s\<rparr>) a = calculateFees p a"
  "getNextTick (p\<lparr>validationStats := s\<rparr>) T z = getNextTick p T z"
  "calculateMaxSwapAtPrice M (p\<lparr>validationStats := s\<rparr>) P nt z = calculateMaxSwapAtPrice M p P nt z"
  "swapAtPrice (p\<lparr>validationStats := s\<rparr>) a P z = swapAtPrice p a P z"
  "updateFeeGrowthOutside (p\<lparr>validationStats := s\<rparr>) t z = (updateFeeGrowthOutside p t z)\<lparr>validationStats := s\<rparr>"
  "updateFeeGrowth (p\<lparr>validationStats := s\<rparr>) f z = (updateFeeGrowth p f z)\<lparr>validationStats := s\<rparr>"
  by (simp_all add: calculateFees_def getNextTick_def calculateMaxSwapAtPrice_def swapAtPrice_def
        updateFeeGrowthOutside_def updateFeeGrowth_def Let_def split: option.splits)

lemma cross_stats:
  "(case map_of (ticks (q\<lparr>validationStats := s\<rparr>)) nt of
      None \<Rightarrow> q\<lparr>validationStats := s\<rparr>
    | Some tickData \<Rightarrow>
        let l = (if z then liquidity (q\<lparr>validationStats := s\<rparr>) - liquidityNet tickData
                 else liquidity (q\<lparr>validationStats := s\<rparr>) + liquidityNet tickData)
        in q\<lparr>validationStats := s\<rparr>\<lparr>liquidity := (if l < 0 then 0 else l)\<rparr>)
   = (case map_of (ticks q) nt of
      None \<Rightarrow> q
    | Some tickData \<Rightarrow>
        let l = (if z then liquidity q - liquidityNet tickData
                 else liquidity q + liquidityNet tickData)
        in q\<lparr>liquidity := (if l < 0 then 0 else l)\<rparr>)\<lparr>validationStats := s\<rparr>"
  by (simp add: Let_def split: option.splits)

lemma loop_stats:
  "executeCLMMSwap_loop M z (p\<lparr>validationStats := s\<rparr>) P T out rem =
     (fst (executeCLMMSwap_loop M z p P T out rem),
      (snd (executeCLMMSwap_loop M z p P T out rem))\<lparr>validationStats := s\<rparr>)"
proof (induction M z p P T out rem rule: executeCLMMSwap_loop.induct)
  case (1 M z p P T out rem)
  let ?ps = "p\<lparr>validationStats := s\<rparr>"
  show ?case
  proof (cases "rem > 0")
    case False
    then show ?thesis
      by (simp add: executeCLMMSwap_loop.simps)
  next
    case pos: True
    show ?thesis
    proof (cases "getNextTick p T z")
      case None
      with pos show ?thesis
        by (simp add: executeCLMMSwap_loop.simps [of M z p] executeCLMMSwap_loop.simps [of M z ?ps]
              stats_irrelevant Let_def)
    next
      case (Some nt)
      let ?m = "calculateMaxSwapAtPrice M p P nt z"
      show ?thesis
      proof (cases "?m \<le> 0 \<or> rem \<le> ?m")
        case True
        with pos Some show ?thesis
          by (auto simp: executeCLMMSwap_loop.simps [of M z p]
                executeCLMMSwap_loop.simps [of M z ?ps] stats_irrelevant Let_def)
      next
        case False
        let ?p1 = "updateFeeGrowthOutside p nt z"
        let ?p2 = "(case map_of (ticks ?p1) nt of
                      None \<Rightarrow> ?p1
                    | Some tickData \<Rightarrow>
                        let l = (if z then liquidity ?p1 - liquidityNet tickData
                                 else liquidity ?p1 + liquidityNet tickData)
                        in ?p1\<lparr>liquidity := (if l < 0 then 0 else l)\<rparr>)"
        let ?o = "out + fst (swapAtPrice p ?m P z)"
        have unf: "executeCLMMSwap_loop M z p P T out rem
                     = executeCLMMSwap_loop M z ?p2 (tickToSqrtPrice M nt) nt ?o (rem - ?m)"
          using pos Some False
          by (subst executeCLMMSwap_loop.simps) (simp add: Let_def)
        have unf': "executeCLMMSwap_loop M z ?ps P T out rem
                     = executeCLMMSwap_loop M z (?p2\<lparr>validationStats := s\<rparr>)
                         (tickToSqrtPrice M nt) nt ?o (rem - ?m)"
          using pos Some False
          by (subst executeCLMMSwap_loop.simps)
             (simp add: stats_irrelevant cross_stats [symmetric] Let_def)
        have IH: "executeCLMMSwap_loop M z (?p2\<lparr>validationStats := s\<rparr>)
                         (tickToSqrtPrice M nt) nt ?o (rem - ?m)
                = (fst (executeCLMMSwap_loop M z ?p2 (tickToSqrtPrice M nt) nt ?o (rem - ?m)),
                   (snd (executeCLMMSwap_loop M z ?p2 (tickToSqrtPrice M nt) nt ?o (rem - ?m)))
                     \<lparr>validationStats := s\<rparr>)"
          using 1 [OF pos Some refl _ _ refl refl refl] False by simp
        show ?thesis
          by (simp only: unf unf' IH)
      qed
    qed
  qed
qed

lemma executeCLMMSwap_stats:
  "executeCLMMSwap M (p\<lparr>validationStats := s\<rparr>) a z =
     (fst (executeCLMMSwap M p a z), (snd (executeCLMMSwap M p a z))\<lparr>validationStats := s\<rparr>)"
  by (simp add: executeCLMMSwap_def loop_stats)

lemma stats_outward:
  "(p\<lparr>validationStats := s\<rparr>)\<lparr>totalSwapFee0 := x\<rparr> = (p\<lparr>totalSwapFee0 := x\<rparr>)\<lparr>validationStats := s\<rparr>"
  "(p\<lparr>validationStats := s\<rparr>)\<lparr>totalSwapFee1 := x\<rparr> = (p\<lparr>totalSwapFee1 := x\<rparr>)\<lparr>validationStats := s\<rparr>"
  by simp_all

lemma applySwapInternal_stats:
  "applySwapInternal M (p\<lparr>validationStats := s\<rparr>) a z f =
     (fst (applySwapInternal M p a z f), (snd (applySwapInternal M p a z f))\<lparr>validationStats := s\<rparr>)"
  by (simp add: applySwapInternal_def Let_def case_prod_beta stats_irrelevant stats_outward
        executeCLMMSwap_stats)

lemma applySwap_stats:
  "applySwap M (p\<lparr>validationStats := s\<rparr>) a z =
     (fst (applySwap M p a z), (snd (applySwap M p a z))\<lparr>validationStats := s\<rparr>)"
  by (simp add: applySwap_def Let_def case_prod_beta stats_irrelevant applySwapInternal_stats
        split: sum.splits)

lemma estimateAmountOut_stats:
  "estimateAmountOut M (p\<lparr>validationStats := s\<rparr>) a z =
     (fst (estimateAmountOut M p a z), (snd (estimateAmountOut M p a z))\<lparr>validationStats := s\<rparr>)"
  by (simp add: estimateAmountOut_def Let_def case_prod_beta stats_irrelevant executeCLMMSwap_stats
        split: sum.splits)

lemma updateTickData_stats:
  "updateTickData (p\<lparr>validationStats := s\<rparr>) t n g = (updateTickData p t n g)\<lparr>validationStats := s\<rparr>"
  by (cases "map_of (ticks p) t") (simp_all add: updateTickData_def Let_def)

lemma applyLiquidityDelta_stats:
  "applyLiquidityDelta (p\<lparr>validationStats := s\<rparr>) tL tU d = (applyLiquidityDelta p tL tU d)\<lparr>validationStats := s\<rparr>"
  by (simp add: applyLiquidityDelta_def Let_def updateTickData_stats)

lemma serialize_stats: "serialize order (p\<lparr>validationStats := s\<rparr>) = serialize order p"
  by (simp add: serialize_def)

text \<open>
  The order of the array \<open>tickBitmap\<close> is all that \<open>serialize\<close> takes from the
  enumeration, and two enumerations of one set give two outputs.
\<close>

lemma serialize_order:
  "serialize order' p = (serialize order p)\<lparr>j_tickBitmap := order'\<rparr>"
  by (simp add: serialize_def)

lemma serialize_order_matters:
  "enumerates [2, 9] {2, 9} \<and> enumerates [9, 2] {2, 9}
   \<and> serialize [2, 9] p \<noteq> serialize [9, 2] p"
proof -
  have "j_tickBitmap (serialize [2, 9] p) \<noteq> j_tickBitmap (serialize [9, 2] p)"
    by (simp add: serialize_def)
  then have "serialize [2, 9] p \<noteq> serialize [9, 2] p"
    by metis
  then show ?thesis
    by (auto simp: enumerates_def)
qed

lemma pool_validated_eq:
  "pool_validated = (Pool_init 100 60)\<lparr>validationStats := ValidationStats_init\<lparr>totalSwaps := 1, exactMatches := 1\<rparr>\<rparr>"
  by (simp add: pool_validated_def applySwapWithValidation_def calculateFees_def
        applySwapInternal_def Let_def Pool_init_def ValidationStats_init_def)

text \<open>
  C5 (as amended). Let \<open>p\<close> be a pool (whose dict \<open>ticks\<close> has distinct keys, as every
  dict has) and \<open>order\<close> the order in which \<open>serialize\<close> enumerates its \<open>tickBitmap\<close>.
  If \<open>float(feeRatePpm)\<close> overflows, \<open>deserialize(serialize(p))\<close> raises. Otherwise it
  is \<open>p\<close> with the validation counters reset to zero and every other field as in \<open>p\<close>;
  it is \<open>p\<close> itself when the counters of \<open>p\<close> are zero. On the round-tripped pool
  \<open>applySwap\<close>, \<open>estimateAmountOut\<close>, \<open>applyLiquidityDelta\<close> and \<open>getFeesAtTick\<close> return
  what they return on \<open>p\<close> and leave the pool they leave from \<open>p\<close>, up to the counters;
  \<open>serialize\<close> returns what it returns on \<open>p\<close> except that the array \<open>tickBitmap\<close>, with
  the same members, may come in another order.
\<close>

theorem serialize_roundtrip:
  assumes "distinct (map fst (ticks p))" and "enumerates order (tickBitmap p)"
  shows "(float_of_int (feeRatePpm p) = Inl OverflowError
            \<longrightarrow> deserialize (serialize order p) = None)
       \<and> (float_of_int (feeRatePpm p) \<noteq> Inl OverflowError
            \<longrightarrow> deserialize (serialize order p) = Some (resetStats p)
              \<and> (validationStats p = ValidationStats_init
                   \<longrightarrow> deserialize (serialize order p) = Some p))
       \<and> (enumerates order' (tickBitmap (resetStats p))
            \<longrightarrow> serialize order' (resetStats p) = (serialize order p)\<lparr>j_tickBitmap := order'\<rparr>
              \<and> set order' = set order)
       \<and> applySwap M (resetStats p) a z
           = (fst (applySwap M p a z), resetStats (snd (applySwap M p a z)))
       \<and> estimateAmountOut M (resetStats p) a z
           = (fst (estimateAmountOut M p a z), resetStats (snd (estimateAmountOut M p a z)))
       \<and> applyLiquidityDelta (resetStats p) tL tU d = resetStats (applyLiquidityDelta p tL tU d)
       \<and> getFeesAtTick (resetStats p) t = getFeesAtTick p t"
proof -
  have o: "set order = tickBitmap p"
    using assms(2) by (simp add: enumerates_def)
  have A: "float_of_int (feeRatePpm p) = Inl OverflowError
             \<longrightarrow> deserialize (serialize order p) = None"
    by (simp add: deserialize_overflow)
  have B: "float_of_int (feeRatePpm p) \<noteq> Inl OverflowError
            \<longrightarrow> deserialize (serialize order p) = Some (resetStats p)
              \<and> (validationStats p = ValidationStats_init
                   \<longrightarrow> deserialize (serialize order p) = Some p)"
  proof (intro impI conjI)
    assume f: "float_of_int (feeRatePpm p) \<noteq> Inl OverflowError"
    show r: "deserialize (serialize order p) = Some (resetStats p)"
      using deserialize_serialize [OF assms(1) o f] by (simp add: resetStats_def)
    assume "validationStats p = ValidationStats_init"
    then have "resetStats p = p"
      by (simp add: resetStats_def)
    with r show "deserialize (serialize order p) = Some p"
      by simp
  qed
  have C: "enumerates order' (tickBitmap (resetStats p))
            \<longrightarrow> serialize order' (resetStats p) = (serialize order p)\<lparr>j_tickBitmap := order'\<rparr>
              \<and> set order' = set order"
    using o by (simp add: enumerates_def resetStats_def serialize_def)
  have D: "applySwap M (resetStats p) a z
             = (fst (applySwap M p a z), resetStats (snd (applySwap M p a z)))"
    by (simp add: resetStats_def applySwap_stats)
  have E: "estimateAmountOut M (resetStats p) a z
             = (fst (estimateAmountOut M p a z), resetStats (snd (estimateAmountOut M p a z)))"
    by (simp add: resetStats_def estimateAmountOut_stats)
  have F: "applyLiquidityDelta (resetStats p) tL tU d = resetStats (applyLiquidityDelta p tL tU d)"
    by (simp add: resetStats_def applyLiquidityDelta_stats)
  have G: "getFeesAtTick (resetStats p) t = getFeesAtTick p t"
    by (cases "map_of (ticks p) t")
       (simp_all add: getFeesAtTick_def calculateFeeGrowthInside_def resetStats_def Let_def)
  from A B C D E F G show ?thesis
    by blast
qed

lemma pool_5_10_eq:
  "pool_5_10 = (Pool_init 100 60)
     \<lparr>ticks := [(5, \<lparr>liquidityNet = 1000, liquidityGross = 1000,
                     feeGrowthOutside0X64 = 0, feeGrowthOutside1X64 = 0\<rparr>),
                (10, \<lparr>liquidityNet = - 1000, liquidityGross = 1000,
                      feeGrowthOutside0X64 = 0, feeGrowthOutside1X64 = 0\<rparr>)],
      tickBitmap := {5, 10}\<rparr>"
  by (simp add: pool_5_10_def applyLiquidityDelta_def updateTickData_def Pool_init_def
        Let_def TickData_init_def insert_commute)

theorem serialize_roundtrip_witness:
  "deserialize (serialize [5, 10] pool_5_10) = Some pool_5_10
   \<and> serialize [10, 5] (resetStats pool_5_10)
       = (serialize [5, 10] pool_5_10)\<lparr>j_tickBitmap := [10, 5]\<rparr>"
proof -
  have d: "distinct (map fst (ticks pool_5_10))"
    by (simp add: pool_5_10_eq)
  have e: "enumerates [5, 10] (tickBitmap pool_5_10)"
    by (simp add: pool_5_10_eq enumerates_def)
  have e': "enumerates [10, 5] (tickBitmap (resetStats pool_5_10))"
    by (auto simp: pool_5_10_eq enumerates_def resetStats_def)
  have v: "validationStats pool_5_10 = ValidationStats_init"
    by (simp add: pool_5_10_eq Pool_init_def)
  have f: "float_of_int (feeRatePpm pool_5_10) \<noteq> Inl OverflowError"
    by (simp add: pool_5_10_eq Pool_init_def float_of_int_100)
  from serialize_roundtrip [OF d e, of "[10, 5]"] e' v f show ?thesis
    by blast
qed

text \<open>
  C5 as stated fails for the validation counters: after one validated swap
  \<open>totalSwaps\<close> is 1, and 0 on the round-tripped pool.
\<close>

theorem serialize_drops_counters_counterexample:
  "totalSwaps (validationStats pool_validated) = 1
   \<and> enumerates [] (tickBitmap pool_validated)
   \<and> map_option (\<lambda>q. totalSwaps (validationStats q))
        (deserialize (serialize [] pool_validated)) = Some 0"
proof -
  have d: "distinct (map fst (ticks pool_validated))"
    by (simp add: pool_validated_eq Pool_init_def)
  have o: "set [] = tickBitmap pool_validated"
    by (simp add: pool_validated_eq Pool_init_def)
  have f: "float_of_int (feeRatePpm pool_validated) \<noteq> Inl OverflowError"
    by (simp add: pool_validated_eq Pool_init_def float_of_int_100)
  from deserialize_serialize [OF d o f] o show ?thesis
    by (simp add: pool_validated_eq ValidationStats_init_def enumerates_def)
qed

subsection \<open>Tick and sqrt price\<close>




subsection \<open>Fees at a single tick\<close>

text \<open>
  C10. For every pool and every tick index \<open>t\<close>, \<open>getFeesAtTick(t)\<close> returns
  \<open>fee0 = 0\<close> and \<open>fee1 = 0\<close>: the fee growth inside the empty range \<open>[t, t)\<close> is a
  snapshot subtracted from itself, whichever side of \<open>t\<close> the current tick is on.
\<close>

theorem getFeesAtTick_always_zero: "getFeesAtTick p t = (0, 0)"
  by (simp add: getFeesAtTick_def calculateFeeGrowthInside_def submod_def Let_def
           split: option.splits)

end
